theory Spec2Isabelle
  imports Complex_Main "HOL-Library.Word" "HOL-Library.Multiset"
begin

unbundle bit_operations_syntax

section \<open>Numbers\<close>

text \<open>
  JavaScript numbers that hold integers (type codes, ids, roaming values, labels) are
  modelled as \<open>int\<close>; other finite numbers as \<open>rat\<close>. The remainder operator
  \<^verbatim>\<open>%\<close> of JavaScript truncates towards zero: the result has the sign of the dividend.
\<close>

type_synonym number = rat

definition js_rem :: "int \<Rightarrow> int \<Rightarrow> int" where
  "js_rem a b = sgn a * (\<bar>a\<bar> mod \<bar>b\<bar>)"

text \<open>\<^verbatim>\<open>Math.round\<close>: the nearest integer, halves rounded towards plus infinity.\<close>

definition js_round :: "number \<Rightarrow> int" where
  "js_round q = \<lfloor>q + 1 / 2\<rfloor>"

text \<open>
  The components of an NPC's scale vector are stored in the DAT record as 32-bit floats, and
  \<^verbatim>\<open>npcs_to_dat_data\<close> edits the bit pattern of \<^verbatim>\<open>scale.y\<close> through a
  \<^verbatim>\<open>DataView\<close>. A scale component is therefore represented by its IEEE-754 binary32 bit
  pattern. \<open>f32_value\<close> is the number a finite pattern denotes; an exponent field of 255
  encodes the infinities (mantissa 0) and NaN (any other mantissa).
\<close>

type_synonym f32 = "32 word"

definition f32_exponent :: "f32 \<Rightarrow> nat" where
  "f32_exponent w = unat (drop_bit 23 w AND 0xFF)"

definition f32_mantissa :: "f32 \<Rightarrow> nat" where
  "f32_mantissa w = unat (w AND 0x7FFFFF)"

definition f32_value :: "f32 \<Rightarrow> rat" where
  "f32_value w =
     (if bit w 31 then - 1 else 1) *
     (if f32_exponent w = 0 then of_nat (f32_mantissa w) / 2 ^ 149
      else of_nat (2 ^ 23 + f32_mantissa w) * 2 ^ f32_exponent w / 2 ^ 150)"

text \<open>
  \<^verbatim>\<open>Math.abs(y - 1) > 0.00001\<close> on a binary32 value \<open>y\<close>. A comparison with NaN is
  false, an infinity is farther than any bound from 1. For finite \<open>y\<close> the double
  subtraction is exact wherever the result is near the bound, and no binary32 value lies
  between the decimal \<open>0.00001\<close> and the double nearest to it, so the comparison is the
  one on the denoted numbers.
\<close>

definition differs_from_one :: "f32 \<Rightarrow> bool" where
  "differs_from_one w =
     (if f32_exponent w = 255 then f32_mantissa w = 0
      else 1 / 100000 < \<bar>f32_value w - 1\<bar>)"

section \<open>Entity records\<close>

datatype 'a Vec3 = Vec3 (vec_x: 'a) (vec_y: 'a) (vec_z: 'a)

text \<open>
  \<^verbatim>\<open>DatNpc\<close>, the raw NPC record of a DAT file, with the fields that
  \<^verbatim>\<open>parse_npc_data\<close>, \<^verbatim>\<open>get_npc_type\<close> and \<^verbatim>\<open>npcs_to_dat_data\<close> read and write.
\<close>

record DatNpc =
  dnpc_type_id :: int
  dnpc_section_id :: int
  dnpc_position :: "number Vec3"
  dnpc_rotation :: "number Vec3"
  dnpc_scale :: "f32 Vec3"
  dnpc_npc_id :: number
  dnpc_script_label :: number
  dnpc_roaming :: int
  dnpc_area_id :: int
  dnpc_unknown :: "int list list"

text \<open>
  The enumeration \<^verbatim>\<open>NpcType\<close>: a TypeScript enumeration is a set of named numbers.
  Its members are numbered here in the order in which \<^verbatim>\<open>npc_type_to_dat_data\<close> names
  them; \<open>VolOptPart1\<close> is named only in a comment of \<^verbatim>\<open>get_npc_type\<close>. Every
  other number is a value of the type that this file does not name.
\<close>

datatype NpcType = NpcType nat

abbreviation Unknown :: NpcType where "Unknown \<equiv> NpcType 0"
abbreviation FemaleFat :: NpcType where "FemaleFat \<equiv> NpcType 1"
abbreviation FemaleMacho :: NpcType where "FemaleMacho \<equiv> NpcType 2"
abbreviation FemaleTall :: NpcType where "FemaleTall \<equiv> NpcType 3"
abbreviation MaleDwarf :: NpcType where "MaleDwarf \<equiv> NpcType 4"
abbreviation MaleFat :: NpcType where "MaleFat \<equiv> NpcType 5"
abbreviation MaleMacho :: NpcType where "MaleMacho \<equiv> NpcType 6"
abbreviation MaleOld :: NpcType where "MaleOld \<equiv> NpcType 7"
abbreviation BlueSoldier :: NpcType where "BlueSoldier \<equiv> NpcType 8"
abbreviation RedSoldier :: NpcType where "RedSoldier \<equiv> NpcType 9"
abbreviation Principal :: NpcType where "Principal \<equiv> NpcType 10"
abbreviation Tekker :: NpcType where "Tekker \<equiv> NpcType 11"
abbreviation GuildLady :: NpcType where "GuildLady \<equiv> NpcType 12"
abbreviation Scientist :: NpcType where "Scientist \<equiv> NpcType 13"
abbreviation Nurse :: NpcType where "Nurse \<equiv> NpcType 14"
abbreviation Irene :: NpcType where "Irene \<equiv> NpcType 15"
abbreviation ItemShop :: NpcType where "ItemShop \<equiv> NpcType 16"
abbreviation Nurse2 :: NpcType where "Nurse2 \<equiv> NpcType 17"
abbreviation Hildebear :: NpcType where "Hildebear \<equiv> NpcType 18"
abbreviation Hildeblue :: NpcType where "Hildeblue \<equiv> NpcType 19"
abbreviation RagRappy :: NpcType where "RagRappy \<equiv> NpcType 20"
abbreviation AlRappy :: NpcType where "AlRappy \<equiv> NpcType 21"
abbreviation Monest :: NpcType where "Monest \<equiv> NpcType 22"
abbreviation SavageWolf :: NpcType where "SavageWolf \<equiv> NpcType 23"
abbreviation BarbarousWolf :: NpcType where "BarbarousWolf \<equiv> NpcType 24"
abbreviation Booma :: NpcType where "Booma \<equiv> NpcType 25"
abbreviation Gobooma :: NpcType where "Gobooma \<equiv> NpcType 26"
abbreviation Gigobooma :: NpcType where "Gigobooma \<equiv> NpcType 27"
abbreviation Dragon :: NpcType where "Dragon \<equiv> NpcType 28"
abbreviation GrassAssassin :: NpcType where "GrassAssassin \<equiv> NpcType 29"
abbreviation PoisonLily :: NpcType where "PoisonLily \<equiv> NpcType 30"
abbreviation NarLily :: NpcType where "NarLily \<equiv> NpcType 31"
abbreviation NanoDragon :: NpcType where "NanoDragon \<equiv> NpcType 32"
abbreviation EvilShark :: NpcType where "EvilShark \<equiv> NpcType 33"
abbreviation PalShark :: NpcType where "PalShark \<equiv> NpcType 34"
abbreviation GuilShark :: NpcType where "GuilShark \<equiv> NpcType 35"
abbreviation PofuillySlime :: NpcType where "PofuillySlime \<equiv> NpcType 36"
abbreviation PouillySlime :: NpcType where "PouillySlime \<equiv> NpcType 37"
abbreviation PanArms :: NpcType where "PanArms \<equiv> NpcType 38"
abbreviation DeRolLe :: NpcType where "DeRolLe \<equiv> NpcType 39"
abbreviation Dubchic :: NpcType where "Dubchic \<equiv> NpcType 40"
abbreviation Gilchic :: NpcType where "Gilchic \<equiv> NpcType 41"
abbreviation Garanz :: NpcType where "Garanz \<equiv> NpcType 42"
abbreviation SinowBeat :: NpcType where "SinowBeat \<equiv> NpcType 43"
abbreviation SinowGold :: NpcType where "SinowGold \<equiv> NpcType 44"
abbreviation Canadine :: NpcType where "Canadine \<equiv> NpcType 45"
abbreviation Canane :: NpcType where "Canane \<equiv> NpcType 46"
abbreviation Dubswitch :: NpcType where "Dubswitch \<equiv> NpcType 47"
abbreviation VolOpt :: NpcType where "VolOpt \<equiv> NpcType 48"
abbreviation Delsaber :: NpcType where "Delsaber \<equiv> NpcType 49"
abbreviation ChaosSorcerer :: NpcType where "ChaosSorcerer \<equiv> NpcType 50"
abbreviation DarkGunner :: NpcType where "DarkGunner \<equiv> NpcType 51"
abbreviation ChaosBringer :: NpcType where "ChaosBringer \<equiv> NpcType 52"
abbreviation DarkBelra :: NpcType where "DarkBelra \<equiv> NpcType 53"
abbreviation Dimenian :: NpcType where "Dimenian \<equiv> NpcType 54"
abbreviation LaDimenian :: NpcType where "LaDimenian \<equiv> NpcType 55"
abbreviation SoDimenian :: NpcType where "SoDimenian \<equiv> NpcType 56"
abbreviation Bulclaw :: NpcType where "Bulclaw \<equiv> NpcType 57"
abbreviation Claw :: NpcType where "Claw \<equiv> NpcType 58"
abbreviation DarkFalz :: NpcType where "DarkFalz \<equiv> NpcType 59"
abbreviation Hildebear2 :: NpcType where "Hildebear2 \<equiv> NpcType 60"
abbreviation Hildeblue2 :: NpcType where "Hildeblue2 \<equiv> NpcType 61"
abbreviation RagRappy2 :: NpcType where "RagRappy2 \<equiv> NpcType 62"
abbreviation LoveRappy :: NpcType where "LoveRappy \<equiv> NpcType 63"
abbreviation Monest2 :: NpcType where "Monest2 \<equiv> NpcType 64"
abbreviation PoisonLily2 :: NpcType where "PoisonLily2 \<equiv> NpcType 65"
abbreviation NarLily2 :: NpcType where "NarLily2 \<equiv> NpcType 66"
abbreviation GrassAssassin2 :: NpcType where "GrassAssassin2 \<equiv> NpcType 67"
abbreviation Dimenian2 :: NpcType where "Dimenian2 \<equiv> NpcType 68"
abbreviation LaDimenian2 :: NpcType where "LaDimenian2 \<equiv> NpcType 69"
abbreviation SoDimenian2 :: NpcType where "SoDimenian2 \<equiv> NpcType 70"
abbreviation DarkBelra2 :: NpcType where "DarkBelra2 \<equiv> NpcType 71"
abbreviation BarbaRay :: NpcType where "BarbaRay \<equiv> NpcType 72"
abbreviation SavageWolf2 :: NpcType where "SavageWolf2 \<equiv> NpcType 73"
abbreviation BarbarousWolf2 :: NpcType where "BarbarousWolf2 \<equiv> NpcType 74"
abbreviation PanArms2 :: NpcType where "PanArms2 \<equiv> NpcType 75"
abbreviation Dubchic2 :: NpcType where "Dubchic2 \<equiv> NpcType 76"
abbreviation Gilchic2 :: NpcType where "Gilchic2 \<equiv> NpcType 77"
abbreviation Garanz2 :: NpcType where "Garanz2 \<equiv> NpcType 78"
abbreviation Dubswitch2 :: NpcType where "Dubswitch2 \<equiv> NpcType 79"
abbreviation Delsaber2 :: NpcType where "Delsaber2 \<equiv> NpcType 80"
abbreviation ChaosSorcerer2 :: NpcType where "ChaosSorcerer2 \<equiv> NpcType 81"
abbreviation GolDragon :: NpcType where "GolDragon \<equiv> NpcType 82"
abbreviation SinowBerill :: NpcType where "SinowBerill \<equiv> NpcType 83"
abbreviation SinowSpigell :: NpcType where "SinowSpigell \<equiv> NpcType 84"
abbreviation Merillia :: NpcType where "Merillia \<equiv> NpcType 85"
abbreviation Meriltas :: NpcType where "Meriltas \<equiv> NpcType 86"
abbreviation Mericarol :: NpcType where "Mericarol \<equiv> NpcType 87"
abbreviation Mericus :: NpcType where "Mericus \<equiv> NpcType 88"
abbreviation Merikle :: NpcType where "Merikle \<equiv> NpcType 89"
abbreviation UlGibbon :: NpcType where "UlGibbon \<equiv> NpcType 90"
abbreviation ZolGibbon :: NpcType where "ZolGibbon \<equiv> NpcType 91"
abbreviation Gibbles :: NpcType where "Gibbles \<equiv> NpcType 92"
abbreviation Gee :: NpcType where "Gee \<equiv> NpcType 93"
abbreviation GiGue :: NpcType where "GiGue \<equiv> NpcType 94"
abbreviation GalGryphon :: NpcType where "GalGryphon \<equiv> NpcType 95"
abbreviation Deldepth :: NpcType where "Deldepth \<equiv> NpcType 96"
abbreviation Delbiter :: NpcType where "Delbiter \<equiv> NpcType 97"
abbreviation Dolmolm :: NpcType where "Dolmolm \<equiv> NpcType 98"
abbreviation Dolmdarl :: NpcType where "Dolmdarl \<equiv> NpcType 99"
abbreviation Morfos :: NpcType where "Morfos \<equiv> NpcType 100"
abbreviation Recobox :: NpcType where "Recobox \<equiv> NpcType 101"
abbreviation Epsilon :: NpcType where "Epsilon \<equiv> NpcType 102"
abbreviation SinowZoa :: NpcType where "SinowZoa \<equiv> NpcType 103"
abbreviation SinowZele :: NpcType where "SinowZele \<equiv> NpcType 104"
abbreviation IllGill :: NpcType where "IllGill \<equiv> NpcType 105"
abbreviation DelLily :: NpcType where "DelLily \<equiv> NpcType 106"
abbreviation OlgaFlow :: NpcType where "OlgaFlow \<equiv> NpcType 107"
abbreviation SandRappy :: NpcType where "SandRappy \<equiv> NpcType 108"
abbreviation DelRappy :: NpcType where "DelRappy \<equiv> NpcType 109"
abbreviation Astark :: NpcType where "Astark \<equiv> NpcType 110"
abbreviation SatelliteLizard :: NpcType where "SatelliteLizard \<equiv> NpcType 111"
abbreviation Yowie :: NpcType where "Yowie \<equiv> NpcType 112"
abbreviation MerissaA :: NpcType where "MerissaA \<equiv> NpcType 113"
abbreviation MerissaAA :: NpcType where "MerissaAA \<equiv> NpcType 114"
abbreviation Girtablulu :: NpcType where "Girtablulu \<equiv> NpcType 115"
abbreviation Zu :: NpcType where "Zu \<equiv> NpcType 116"
abbreviation Pazuzu :: NpcType where "Pazuzu \<equiv> NpcType 117"
abbreviation Boota :: NpcType where "Boota \<equiv> NpcType 118"
abbreviation ZeBoota :: NpcType where "ZeBoota \<equiv> NpcType 119"
abbreviation BaBoota :: NpcType where "BaBoota \<equiv> NpcType 120"
abbreviation Dorphon :: NpcType where "Dorphon \<equiv> NpcType 121"
abbreviation DorphonEclair :: NpcType where "DorphonEclair \<equiv> NpcType 122"
abbreviation Goran :: NpcType where "Goran \<equiv> NpcType 123"
abbreviation PyroGoran :: NpcType where "PyroGoran \<equiv> NpcType 124"
abbreviation GoranDetonator :: NpcType where "GoranDetonator \<equiv> NpcType 125"
abbreviation SaintMilion :: NpcType where "SaintMilion \<equiv> NpcType 126"
abbreviation Shambertin :: NpcType where "Shambertin \<equiv> NpcType 127"
abbreviation Kondrieu :: NpcType where "Kondrieu \<equiv> NpcType 128"
abbreviation VolOptPart1 :: NpcType where "VolOptPart1 \<equiv> NpcType 129"


text \<open>\<^verbatim>\<open>QuestNpc\<close>, the decoded NPC: the semantic type and the preserved raw fields.\<close>

record QuestNpc =
  qnpc_type :: NpcType
  qnpc_area_id :: int
  qnpc_section_id :: int
  qnpc_position :: "number Vec3"
  qnpc_rotation :: "number Vec3"
  qnpc_scale :: "f32 Vec3"
  qnpc_unknown :: "int list list"
  qnpc_pso_type_id :: int
  qnpc_npc_id :: number
  qnpc_script_label :: int
  qnpc_roaming :: int

text \<open>The object literal \<^verbatim>\<open>{ type_id, roaming, regular }\<close> of \<^verbatim>\<open>npc_type_to_dat_data\<close>.\<close>

record NpcTypeData =
  td_type_id :: int
  td_roaming :: int
  td_regular :: bool

section \<open>Errors\<close>

text \<open>Every \<^verbatim>\<open>throw\<close> of the source is a value of this type.\<close>

datatype error =
    UnexpectedType NpcType
  | TypeError
  | OffsetOutOfBounds int
  | NameTooLong string
  | Name2TooLong string string
  | SizeMismatch nat nat
  | ChunkLengthMismatch nat
  | LowerLayerError nat

fun map_result :: "('a \<Rightarrow> error + 'b) \<Rightarrow> 'a list \<Rightarrow> error + 'b list" where
  "map_result f [] = Inr []"
| "map_result f (a # as) =
     (case f a of
        Inl e \<Rightarrow> Inl e
      | Inr b \<Rightarrow> (case map_result f as of Inl e \<Rightarrow> Inl e | Inr bs \<Rightarrow> Inr (b # bs)))"

section \<open>NPC type detection: \<^verbatim>\<open>get_npc_type\<close>\<close>

text \<open>
  Each \<^verbatim>\<open>switch\<close> is the chain of its \<^verbatim>\<open>case\<close> labels in the order of the source;
  a \<^verbatim>\<open>switch\<close> on a template string compares the tuple of its interpolated integers.
  The result is \<open>None\<close> where no label matches and control falls to the next
  \<^verbatim>\<open>switch\<close>.
\<close>

definition npc_type_by_roaming3 :: "int \<times> int \<times> int \<Rightarrow> NpcType option" where
  "npc_type_by_roaming3 k =
    (if k = (0x044, 0, 1) then Some Booma
     else if k = (0x044, 1, 1) then Some Gobooma
     else if k = (0x044, 2, 1) then Some Gigobooma
     else if k = (0x063, 0, 1) then Some EvilShark
     else if k = (0x063, 1, 1) then Some PalShark
     else if k = (0x063, 2, 1) then Some GuilShark
     else if k = (0x0A6, 0, 1) then Some Dimenian
     else if k = (0x0A6, 0, 2) then Some Dimenian2
     else if k = (0x0A6, 1, 1) then Some LaDimenian
     else if k = (0x0A6, 1, 2) then Some LaDimenian2
     else if k = (0x0A6, 2, 1) then Some SoDimenian
     else if k = (0x0A6, 2, 2) then Some SoDimenian2
     else if k = (0x0D6, 0, 2) then Some Mericarol
     else if k = (0x0D6, 1, 2) then Some Mericus
     else if k = (0x0D6, 2, 2) then Some Merikle
     else if k = (0x115, 0, 4) then Some Boota
     else if k = (0x115, 1, 4) then Some ZeBoota
     else if k = (0x115, 2, 4) then Some BaBoota
     else if k = (0x117, 0, 4) then Some Goran
     else if k = (0x117, 1, 4) then Some PyroGoran
     else if k = (0x117, 2, 4) then Some GoranDetonator
     else None)"

definition npc_type_by_roaming2 :: "bool \<Rightarrow> int \<Rightarrow> int \<times> int \<times> int \<Rightarrow> NpcType option" where
  "npc_type_by_roaming2 regular area_id k =
    (if k = (0x040, 0, 1) then Some Hildebear
     else if k = (0x040, 0, 2) then Some Hildebear2
     else if k = (0x040, 1, 1) then Some Hildeblue
     else if k = (0x040, 1, 2) then Some Hildeblue2
     else if k = (0x041, 0, 1) then Some RagRappy
     else if k = (0x041, 0, 2) then Some RagRappy2
     else if k = (0x041, 0, 4) then Some SandRappy
     else if k = (0x041, 1, 1) then Some AlRappy
     else if k = (0x041, 1, 2) then Some LoveRappy
     else if k = (0x041, 1, 4) then Some DelRappy
     else if k = (0x080, 0, 1) then Some Dubchic
     else if k = (0x080, 0, 2) then Some Dubchic2
     else if k = (0x080, 1, 1) then Some Gilchic
     else if k = (0x080, 1, 2) then Some Gilchic2
     else if k = (0x0D4, 0, 2) then Some SinowBerill
     else if k = (0x0D4, 1, 2) then Some SinowSpigell
     else if k = (0x0D5, 0, 2) then Some Merillia
     else if k = (0x0D5, 1, 2) then Some Meriltas
     else if k = (0x0D7, 0, 2) then Some UlGibbon
     else if k = (0x0D7, 1, 2) then Some ZolGibbon
     else if k = (0x0DD, 0, 2) then Some Dolmolm
     else if k = (0x0DD, 1, 2) then Some Dolmdarl
     else if k = (0x0E0, 0, 2) then Some (if 15 < area_id then Epsilon else SinowZoa)
     else if k = (0x0E0, 1, 2) then Some (if 15 < area_id then Epsilon else SinowZele)
     else if k = (0x112, 0, 4) then Some MerissaA
     else if k = (0x112, 1, 4) then Some MerissaAA
     else if k = (0x114, 0, 4) then Some Zu
     else if k = (0x114, 1, 4) then Some Pazuzu
     else if k = (0x116, 0, 4) then Some Dorphon
     else if k = (0x116, 1, 4) then Some DorphonEclair
     else if k = (0x119, 0, 4) then Some (if regular then SaintMilion else Kondrieu)
     else if k = (0x119, 1, 4) then Some (if regular then Shambertin else Kondrieu)
     else None)"

definition npc_type_by_episode :: "bool \<Rightarrow> int \<Rightarrow> int \<times> int \<Rightarrow> NpcType option" where
  "npc_type_by_episode regular area_id k =
    (if k = (0x042, 1) then Some Monest
     else if k = (0x042, 2) then Some Monest2
     else if k = (0x043, 1) then Some (if regular then SavageWolf else BarbarousWolf)
     else if k = (0x043, 2) then Some (if regular then SavageWolf2 else BarbarousWolf2)
     else if k = (0x060, 1) then Some GrassAssassin
     else if k = (0x060, 2) then Some GrassAssassin2
     else if k = (0x061, 1) then Some (if 15 < area_id then DelLily else (if regular then PoisonLily else NarLily))
     else if k = (0x061, 2) then Some (if 15 < area_id then DelLily else (if regular then PoisonLily2 else NarLily2))
     else if k = (0x062, 1) then Some NanoDragon
     else if k = (0x064, 1) then Some (if regular then PofuillySlime else PouillySlime)
     else if k = (0x065, 1) then Some PanArms
     else if k = (0x065, 2) then Some PanArms2
     else if k = (0x081, 1) then Some Garanz
     else if k = (0x081, 2) then Some Garanz2
     else if k = (0x082, 1) then Some (if regular then SinowBeat else SinowGold)
     else if k = (0x083, 1) then Some Canadine
     else if k = (0x084, 1) then Some Canane
     else if k = (0x085, 1) then Some Dubswitch
     else if k = (0x085, 2) then Some Dubswitch2
     else if k = (0x0A0, 1) then Some Delsaber
     else if k = (0x0A0, 2) then Some Delsaber2
     else if k = (0x0A1, 1) then Some ChaosSorcerer
     else if k = (0x0A1, 2) then Some ChaosSorcerer2
     else if k = (0x0A2, 1) then Some DarkGunner
     else if k = (0x0A4, 1) then Some ChaosBringer
     else if k = (0x0A5, 1) then Some DarkBelra
     else if k = (0x0A5, 2) then Some DarkBelra2
     else if k = (0x0A7, 1) then Some Bulclaw
     else if k = (0x0A8, 1) then Some Claw
     else if k = (0x0C0, 1) then Some Dragon
     else if k = (0x0C0, 2) then Some GalGryphon
     else if k = (0x0C1, 1) then Some DeRolLe
     else if k = (0x0C5, 1) then Some VolOpt
     else if k = (0x0C8, 1) then Some DarkFalz
     else if k = (0x0CA, 2) then Some OlgaFlow
     else if k = (0x0CB, 2) then Some BarbaRay
     else if k = (0x0CC, 2) then Some GolDragon
     else if k = (0x0D8, 2) then Some Gibbles
     else if k = (0x0D9, 2) then Some Gee
     else if k = (0x0DA, 2) then Some GiGue
     else if k = (0x0DB, 2) then Some Deldepth
     else if k = (0x0DC, 2) then Some Delbiter
     else if k = (0x0DE, 2) then Some Morfos
     else if k = (0x0DF, 2) then Some Recobox
     else if k = (0x0E1, 2) then Some IllGill
     else if k = (0x110, 4) then Some Astark
     else if k = (0x111, 4) then Some (if regular then SatelliteLizard else Yowie)
     else if k = (0x113, 4) then Some Girtablulu
     else None)"

definition npc_type_by_type_id :: "int \<Rightarrow> NpcType option" where
  "npc_type_by_type_id k =
    (if k = 0x004 then Some FemaleFat
     else if k = 0x005 then Some FemaleMacho
     else if k = 0x007 then Some FemaleTall
     else if k = 0x00A then Some MaleDwarf
     else if k = 0x00B then Some MaleFat
     else if k = 0x00C then Some MaleMacho
     else if k = 0x00D then Some MaleOld
     else if k = 0x019 then Some BlueSoldier
     else if k = 0x01A then Some RedSoldier
     else if k = 0x01B then Some Principal
     else if k = 0x01C then Some Tekker
     else if k = 0x01D then Some GuildLady
     else if k = 0x01E then Some Scientist
     else if k = 0x01F then Some Nurse
     else if k = 0x020 then Some Irene
     else if k = 0x0F1 then Some ItemShop
     else if k = 0x0FE then Some Nurse2
     else None)"

definition get_npc_type :: "int \<Rightarrow> DatNpc \<Rightarrow> NpcType" where
  "get_npc_type episode npc =
     (let regular = differs_from_one (vec_y (dnpc_scale npc));
          type_id = dnpc_type_id npc;
          roaming = dnpc_roaming npc;
          area_id = dnpc_area_id npc
      in case npc_type_by_roaming3 (type_id, js_rem roaming 3, episode) of
           Some t \<Rightarrow> t
         | None \<Rightarrow>
        (case npc_type_by_roaming2 regular area_id (type_id, js_rem roaming 2, episode) of
           Some t \<Rightarrow> t
         | None \<Rightarrow>
        (case npc_type_by_episode regular area_id (type_id, episode) of
           Some t \<Rightarrow> t
         | None \<Rightarrow>
        (case npc_type_by_type_id type_id of
           Some t \<Rightarrow> t
         | None \<Rightarrow> Unknown))))"

definition parse_npc_data :: "int \<Rightarrow> DatNpc list \<Rightarrow> QuestNpc list" where
  "parse_npc_data episode npcs =
     map (\<lambda>npc_data.
       \<lparr> qnpc_type = get_npc_type episode npc_data,
         qnpc_area_id = dnpc_area_id npc_data,
         qnpc_section_id = dnpc_section_id npc_data,
         qnpc_position = dnpc_position npc_data,
         qnpc_rotation = dnpc_rotation npc_data,
         qnpc_scale = dnpc_scale npc_data,
         qnpc_unknown = dnpc_unknown npc_data,
         qnpc_pso_type_id = dnpc_type_id npc_data,
         qnpc_npc_id = dnpc_npc_id npc_data,
         qnpc_script_label = js_round (dnpc_script_label npc_data),
         qnpc_roaming = dnpc_roaming npc_data \<rparr>) npcs"

section \<open>NPC encoding: \<^verbatim>\<open>npc_type_to_dat_data\<close> and \<^verbatim>\<open>npcs_to_dat_data\<close>\<close>

text \<open>
  \<open>Inr None\<close> is the \<^verbatim>\<open>undefined\<close> returned for \<open>Unknown\<close>; a type that no
  \<^verbatim>\<open>case\<close> names reaches the \<^verbatim>\<open>default\<close> branch, which throws (\<open>Inl\<close>).
\<close>

definition npc_type_to_dat_data :: "NpcType \<Rightarrow> error + NpcTypeData option" where
  "npc_type_to_dat_data t =
    (if t = Unknown then Inr None
     else if t = FemaleFat then
       Inr (Some \<lparr>td_type_id = 0x004, td_roaming = 0, td_regular = True\<rparr>)
     else if t = FemaleMacho then
       Inr (Some \<lparr>td_type_id = 0x005, td_roaming = 0, td_regular = True\<rparr>)
     else if t = FemaleTall then
       Inr (Some \<lparr>td_type_id = 0x007, td_roaming = 0, td_regular = True\<rparr>)
     else if t = MaleDwarf then
       Inr (Some \<lparr>td_type_id = 0x00A, td_roaming = 0, td_regular = True\<rparr>)
     else if t = MaleFat then
       Inr (Some \<lparr>td_type_id = 0x00B, td_roaming = 0, td_regular = True\<rparr>)
     else if t = MaleMacho then
       Inr (Some \<lparr>td_type_id = 0x00C, td_roaming = 0, td_regular = True\<rparr>)
     else if t = MaleOld then
       Inr (Some \<lparr>td_type_id = 0x00D, td_roaming = 0, td_regular = True\<rparr>)
     else if t = BlueSoldier then
       Inr (Some \<lparr>td_type_id = 0x019, td_roaming = 0, td_regular = True\<rparr>)
     else if t = RedSoldier then
       Inr (Some \<lparr>td_type_id = 0x01A, td_roaming = 0, td_regular = True\<rparr>)
     else if t = Principal then
       Inr (Some \<lparr>td_type_id = 0x01B, td_roaming = 0, td_regular = True\<rparr>)
     else if t = Tekker then
       Inr (Some \<lparr>td_type_id = 0x01C, td_roaming = 0, td_regular = True\<rparr>)
     else if t = GuildLady then
       Inr (Some \<lparr>td_type_id = 0x01D, td_roaming = 0, td_regular = True\<rparr>)
     else if t = Scientist then
       Inr (Some \<lparr>td_type_id = 0x01E, td_roaming = 0, td_regular = True\<rparr>)
     else if t = Nurse then
       Inr (Some \<lparr>td_type_id = 0x01F, td_roaming = 0, td_regular = True\<rparr>)
     else if t = Irene then
       Inr (Some \<lparr>td_type_id = 0x020, td_roaming = 0, td_regular = True\<rparr>)
     else if t = ItemShop then
       Inr (Some \<lparr>td_type_id = 0x0F1, td_roaming = 0, td_regular = True\<rparr>)
     else if t = Nurse2 then
       Inr (Some \<lparr>td_type_id = 0x0FE, td_roaming = 0, td_regular = True\<rparr>)
     else if t = Hildebear then
       Inr (Some \<lparr>td_type_id = 0x040, td_roaming = 0, td_regular = True\<rparr>)
     else if t = Hildeblue then
       Inr (Some \<lparr>td_type_id = 0x040, td_roaming = 1, td_regular = True\<rparr>)
     else if t = RagRappy then
       Inr (Some \<lparr>td_type_id = 0x041, td_roaming = 0, td_regular = True\<rparr>)
     else if t = AlRappy then
       Inr (Some \<lparr>td_type_id = 0x041, td_roaming = 1, td_regular = True\<rparr>)
     else if t = Monest then
       Inr (Some \<lparr>td_type_id = 0x042, td_roaming = 0, td_regular = True\<rparr>)
     else if t = SavageWolf then
       Inr (Some \<lparr>td_type_id = 0x043, td_roaming = 0, td_regular = True\<rparr>)
     else if t = BarbarousWolf then
       Inr (Some \<lparr>td_type_id = 0x043, td_roaming = 0, td_regular = False\<rparr>)
     else if t = Booma then
       Inr (Some \<lparr>td_type_id = 0x044, td_roaming = 0, td_regular = True\<rparr>)
     else if t = Gobooma then
       Inr (Some \<lparr>td_type_id = 0x044, td_roaming = 1, td_regular = True\<rparr>)
     else if t = Gigobooma then
       Inr (Some \<lparr>td_type_id = 0x044, td_roaming = 2, td_regular = True\<rparr>)
     else if t = Dragon then
       Inr (Some \<lparr>td_type_id = 0x0C0, td_roaming = 0, td_regular = True\<rparr>)
     else if t = GrassAssassin then
       Inr (Some \<lparr>td_type_id = 0x060, td_roaming = 0, td_regular = True\<rparr>)
     else if t = PoisonLily then
       Inr (Some \<lparr>td_type_id = 0x061, td_roaming = 0, td_regular = True\<rparr>)
     else if t = NarLily then
       Inr (Some \<lparr>td_type_id = 0x061, td_roaming = 1, td_regular = True\<rparr>)
     else if t = NanoDragon then
       Inr (Some \<lparr>td_type_id = 0x062, td_roaming = 0, td_regular = True\<rparr>)
     else if t = EvilShark then
       Inr (Some \<lparr>td_type_id = 0x063, td_roaming = 0, td_regular = True\<rparr>)
     else if t = PalShark then
       Inr (Some \<lparr>td_type_id = 0x063, td_roaming = 1, td_regular = True\<rparr>)
     else if t = GuilShark then
       Inr (Some \<lparr>td_type_id = 0x063, td_roaming = 2, td_regular = True\<rparr>)
     else if t = PofuillySlime then
       Inr (Some \<lparr>td_type_id = 0x064, td_roaming = 0, td_regular = True\<rparr>)
     else if t = PouillySlime then
       Inr (Some \<lparr>td_type_id = 0x064, td_roaming = 0, td_regular = False\<rparr>)
     else if t = PanArms then
       Inr (Some \<lparr>td_type_id = 0x065, td_roaming = 0, td_regular = True\<rparr>)
     else if t = DeRolLe then
       Inr (Some \<lparr>td_type_id = 0x0C1, td_roaming = 0, td_regular = True\<rparr>)
     else if t = Dubchic then
       Inr (Some \<lparr>td_type_id = 0x080, td_roaming = 0, td_regular = True\<rparr>)
     else if t = Gilchic then
       Inr (Some \<lparr>td_type_id = 0x080, td_roaming = 1, td_regular = True\<rparr>)
     else if t = Garanz then
       Inr (Some \<lparr>td_type_id = 0x081, td_roaming = 0, td_regular = True\<rparr>)
     else if t = SinowBeat then
       Inr (Some \<lparr>td_type_id = 0x082, td_roaming = 0, td_regular = True\<rparr>)
     else if t = SinowGold then
       Inr (Some \<lparr>td_type_id = 0x082, td_roaming = 0, td_regular = False\<rparr>)
     else if t = Canadine then
       Inr (Some \<lparr>td_type_id = 0x083, td_roaming = 0, td_regular = True\<rparr>)
     else if t = Canane then
       Inr (Some \<lparr>td_type_id = 0x084, td_roaming = 0, td_regular = True\<rparr>)
     else if t = Dubswitch then
       Inr (Some \<lparr>td_type_id = 0x085, td_roaming = 0, td_regular = True\<rparr>)
     else if t = VolOpt then
       Inr (Some \<lparr>td_type_id = 0x0C5, td_roaming = 0, td_regular = True\<rparr>)
     else if t = Delsaber then
       Inr (Some \<lparr>td_type_id = 0x0A0, td_roaming = 0, td_regular = True\<rparr>)
     else if t = ChaosSorcerer then
       Inr (Some \<lparr>td_type_id = 0x0A1, td_roaming = 0, td_regular = True\<rparr>)
     else if t = DarkGunner then
       Inr (Some \<lparr>td_type_id = 0x0A2, td_roaming = 0, td_regular = True\<rparr>)
     else if t = ChaosBringer then
       Inr (Some \<lparr>td_type_id = 0x0A4, td_roaming = 0, td_regular = True\<rparr>)
     else if t = DarkBelra then
       Inr (Some \<lparr>td_type_id = 0x0A5, td_roaming = 0, td_regular = True\<rparr>)
     else if t = Dimenian then
       Inr (Some \<lparr>td_type_id = 0x0A6, td_roaming = 0, td_regular = True\<rparr>)
     else if t = LaDimenian then
       Inr (Some \<lparr>td_type_id = 0x0A6, td_roaming = 1, td_regular = True\<rparr>)
     else if t = SoDimenian then
       Inr (Some \<lparr>td_type_id = 0x0A6, td_roaming = 2, td_regular = True\<rparr>)
     else if t = Bulclaw then
       Inr (Some \<lparr>td_type_id = 0x0A7, td_roaming = 0, td_regular = True\<rparr>)
     else if t = Claw then
       Inr (Some \<lparr>td_type_id = 0x0A8, td_roaming = 0, td_regular = True\<rparr>)
     else if t = DarkFalz then
       Inr (Some \<lparr>td_type_id = 0x0C8, td_roaming = 0, td_regular = True\<rparr>)
     else if t = Hildebear2 then
       Inr (Some \<lparr>td_type_id = 0x040, td_roaming = 0, td_regular = True\<rparr>)
     else if t = Hildeblue2 then
       Inr (Some \<lparr>td_type_id = 0x040, td_roaming = 1, td_regular = True\<rparr>)
     else if t = RagRappy2 then
       Inr (Some \<lparr>td_type_id = 0x041, td_roaming = 0, td_regular = True\<rparr>)
     else if t = LoveRappy then
       Inr (Some \<lparr>td_type_id = 0x041, td_roaming = 1, td_regular = True\<rparr>)
     else if t = Monest2 then
       Inr (Some \<lparr>td_type_id = 0x042, td_roaming = 0, td_regular = True\<rparr>)
     else if t = PoisonLily2 then
       Inr (Some \<lparr>td_type_id = 0x061, td_roaming = 0, td_regular = True\<rparr>)
     else if t = NarLily2 then
       Inr (Some \<lparr>td_type_id = 0x061, td_roaming = 1, td_regular = True\<rparr>)
     else if t = GrassAssassin2 then
       Inr (Some \<lparr>td_type_id = 0x060, td_roaming = 0, td_regular = True\<rparr>)
     else if t = Dimenian2 then
       Inr (Some \<lparr>td_type_id = 0x0A6, td_roaming = 0, td_regular = True\<rparr>)
     else if t = LaDimenian2 then
       Inr (Some \<lparr>td_type_id = 0x0A6, td_roaming = 1, td_regular = True\<rparr>)
     else if t = SoDimenian2 then
       Inr (Some \<lparr>td_type_id = 0x0A6, td_roaming = 2, td_regular = True\<rparr>)
     else if t = DarkBelra2 then
       Inr (Some \<lparr>td_type_id = 0x0A5, td_roaming = 0, td_regular = True\<rparr>)
     else if t = BarbaRay then
       Inr (Some \<lparr>td_type_id = 0x0CB, td_roaming = 0, td_regular = True\<rparr>)
     else if t = SavageWolf2 then
       Inr (Some \<lparr>td_type_id = 0x043, td_roaming = 0, td_regular = True\<rparr>)
     else if t = BarbarousWolf2 then
       Inr (Some \<lparr>td_type_id = 0x043, td_roaming = 0, td_regular = False\<rparr>)
     else if t = PanArms2 then
       Inr (Some \<lparr>td_type_id = 0x065, td_roaming = 0, td_regular = True\<rparr>)
     else if t = Dubchic2 then
       Inr (Some \<lparr>td_type_id = 0x080, td_roaming = 0, td_regular = True\<rparr>)
     else if t = Gilchic2 then
       Inr (Some \<lparr>td_type_id = 0x080, td_roaming = 1, td_regular = True\<rparr>)
     else if t = Garanz2 then
       Inr (Some \<lparr>td_type_id = 0x081, td_roaming = 0, td_regular = True\<rparr>)
     else if t = Dubswitch2 then
       Inr (Some \<lparr>td_type_id = 0x085, td_roaming = 0, td_regular = True\<rparr>)
     else if t = Delsaber2 then
       Inr (Some \<lparr>td_type_id = 0x0A0, td_roaming = 0, td_regular = True\<rparr>)
     else if t = ChaosSorcerer2 then
       Inr (Some \<lparr>td_type_id = 0x0A1, td_roaming = 0, td_regular = True\<rparr>)
     else if t = GolDragon then
       Inr (Some \<lparr>td_type_id = 0x0CC, td_roaming = 0, td_regular = True\<rparr>)
     else if t = SinowBerill then
       Inr (Some \<lparr>td_type_id = 0x0D4, td_roaming = 0, td_regular = True\<rparr>)
     else if t = SinowSpigell then
       Inr (Some \<lparr>td_type_id = 0x0D4, td_roaming = 1, td_regular = True\<rparr>)
     else if t = Merillia then
       Inr (Some \<lparr>td_type_id = 0x0D5, td_roaming = 0, td_regular = True\<rparr>)
     else if t = Meriltas then
       Inr (Some \<lparr>td_type_id = 0x0D5, td_roaming = 1, td_regular = True\<rparr>)
     else if t = Mericarol then
       Inr (Some \<lparr>td_type_id = 0x0D6, td_roaming = 0, td_regular = True\<rparr>)
     else if t = Mericus then
       Inr (Some \<lparr>td_type_id = 0x0D6, td_roaming = 1, td_regular = True\<rparr>)
     else if t = Merikle then
       Inr (Some \<lparr>td_type_id = 0x0D6, td_roaming = 2, td_regular = True\<rparr>)
     else if t = UlGibbon then
       Inr (Some \<lparr>td_type_id = 0x0D7, td_roaming = 0, td_regular = True\<rparr>)
     else if t = ZolGibbon then
       Inr (Some \<lparr>td_type_id = 0x0D7, td_roaming = 1, td_regular = True\<rparr>)
     else if t = Gibbles then
       Inr (Some \<lparr>td_type_id = 0x0D8, td_roaming = 0, td_regular = True\<rparr>)
     else if t = Gee then
       Inr (Some \<lparr>td_type_id = 0x0D9, td_roaming = 0, td_regular = True\<rparr>)
     else if t = GiGue then
       Inr (Some \<lparr>td_type_id = 0x0DA, td_roaming = 0, td_regular = True\<rparr>)
     else if t = GalGryphon then
       Inr (Some \<lparr>td_type_id = 0x0C0, td_roaming = 0, td_regular = True\<rparr>)
     else if t = Deldepth then
       Inr (Some \<lparr>td_type_id = 0x0DB, td_roaming = 0, td_regular = True\<rparr>)
     else if t = Delbiter then
       Inr (Some \<lparr>td_type_id = 0x0DC, td_roaming = 0, td_regular = True\<rparr>)
     else if t = Dolmolm then
       Inr (Some \<lparr>td_type_id = 0x0DD, td_roaming = 0, td_regular = True\<rparr>)
     else if t = Dolmdarl then
       Inr (Some \<lparr>td_type_id = 0x0DD, td_roaming = 1, td_regular = True\<rparr>)
     else if t = Morfos then
       Inr (Some \<lparr>td_type_id = 0x0DE, td_roaming = 0, td_regular = True\<rparr>)
     else if t = Recobox then
       Inr (Some \<lparr>td_type_id = 0x0DF, td_roaming = 0, td_regular = True\<rparr>)
     else if t = Epsilon then
       Inr (Some \<lparr>td_type_id = 0x0E0, td_roaming = 0, td_regular = True\<rparr>)
     else if t = SinowZoa then
       Inr (Some \<lparr>td_type_id = 0x0E0, td_roaming = 0, td_regular = True\<rparr>)
     else if t = SinowZele then
       Inr (Some \<lparr>td_type_id = 0x0E0, td_roaming = 1, td_regular = True\<rparr>)
     else if t = IllGill then
       Inr (Some \<lparr>td_type_id = 0x0E1, td_roaming = 0, td_regular = True\<rparr>)
     else if t = DelLily then
       Inr (Some \<lparr>td_type_id = 0x061, td_roaming = 0, td_regular = True\<rparr>)
     else if t = OlgaFlow then
       Inr (Some \<lparr>td_type_id = 0x0CA, td_roaming = 0, td_regular = True\<rparr>)
     else if t = SandRappy then
       Inr (Some \<lparr>td_type_id = 0x041, td_roaming = 0, td_regular = True\<rparr>)
     else if t = DelRappy then
       Inr (Some \<lparr>td_type_id = 0x041, td_roaming = 1, td_regular = True\<rparr>)
     else if t = Astark then
       Inr (Some \<lparr>td_type_id = 0x110, td_roaming = 0, td_regular = True\<rparr>)
     else if t = SatelliteLizard then
       Inr (Some \<lparr>td_type_id = 0x111, td_roaming = 0, td_regular = True\<rparr>)
     else if t = Yowie then
       Inr (Some \<lparr>td_type_id = 0x111, td_roaming = 0, td_regular = False\<rparr>)
     else if t = MerissaA then
       Inr (Some \<lparr>td_type_id = 0x112, td_roaming = 0, td_regular = True\<rparr>)
     else if t = MerissaAA then
       Inr (Some \<lparr>td_type_id = 0x112, td_roaming = 1, td_regular = True\<rparr>)
     else if t = Girtablulu then
       Inr (Some \<lparr>td_type_id = 0x113, td_roaming = 0, td_regular = True\<rparr>)
     else if t = Zu then
       Inr (Some \<lparr>td_type_id = 0x114, td_roaming = 0, td_regular = True\<rparr>)
     else if t = Pazuzu then
       Inr (Some \<lparr>td_type_id = 0x114, td_roaming = 1, td_regular = True\<rparr>)
     else if t = Boota then
       Inr (Some \<lparr>td_type_id = 0x115, td_roaming = 0, td_regular = True\<rparr>)
     else if t = ZeBoota then
       Inr (Some \<lparr>td_type_id = 0x115, td_roaming = 1, td_regular = True\<rparr>)
     else if t = BaBoota then
       Inr (Some \<lparr>td_type_id = 0x115, td_roaming = 2, td_regular = True\<rparr>)
     else if t = Dorphon then
       Inr (Some \<lparr>td_type_id = 0x116, td_roaming = 0, td_regular = True\<rparr>)
     else if t = DorphonEclair then
       Inr (Some \<lparr>td_type_id = 0x116, td_roaming = 1, td_regular = True\<rparr>)
     else if t = Goran then
       Inr (Some \<lparr>td_type_id = 0x117, td_roaming = 0, td_regular = True\<rparr>)
     else if t = PyroGoran then
       Inr (Some \<lparr>td_type_id = 0x117, td_roaming = 1, td_regular = True\<rparr>)
     else if t = GoranDetonator then
       Inr (Some \<lparr>td_type_id = 0x117, td_roaming = 2, td_regular = True\<rparr>)
     else if t = SaintMilion then
       Inr (Some \<lparr>td_type_id = 0x119, td_roaming = 0, td_regular = True\<rparr>)
     else if t = Shambertin then
       Inr (Some \<lparr>td_type_id = 0x119, td_roaming = 1, td_regular = True\<rparr>)
     else if t = Kondrieu then
       Inr (Some \<lparr>td_type_id = 0x119, td_roaming = 0, td_regular = False\<rparr>)
     else Inl (UnexpectedType t))"

text \<open>
  The callback of \<^verbatim>\<open>npcs.map\<close>. The \<^verbatim>\<open>DataView\<close> round trip clears bit 23 of the
  pattern of \<^verbatim>\<open>scale.y\<close> and sets it again when the type is not regular.
\<close>

definition npc_to_dat_data :: "QuestNpc \<Rightarrow> error + DatNpc" where
  "npc_to_dat_data npc =
     (case npc_type_to_dat_data (qnpc_type npc) of
        Inl e \<Rightarrow> Inl e
      | Inr r \<Rightarrow>
          (let type_data =
                 (case r of
                    Some d \<Rightarrow> d
                  | None \<Rightarrow> \<lparr> td_type_id = qnpc_pso_type_id npc,
                               td_roaming = qnpc_roaming npc,
                               td_regular = True \<rparr>);
               scale_y = (vec_y (qnpc_scale npc) AND NOT 0x800000)
                           OR (if td_regular type_data then 0 else 0x800000);
               scale = Vec3 (vec_x (qnpc_scale npc)) scale_y (vec_z (qnpc_scale npc))
           in Inr \<lparr> dnpc_type_id = td_type_id type_data,
                    dnpc_section_id = qnpc_section_id npc,
                    dnpc_position = qnpc_position npc,
                    dnpc_rotation = qnpc_rotation npc,
                    dnpc_scale = scale,
                    dnpc_npc_id = qnpc_npc_id npc,
                    dnpc_script_label = of_int (qnpc_script_label npc),
                    dnpc_roaming = td_roaming type_data,
                    dnpc_area_id = qnpc_area_id npc,
                    dnpc_unknown = qnpc_unknown npc \<rparr>))"

definition npcs_to_dat_data :: "QuestNpc list \<Rightarrow> error + DatNpc list" where
  "npcs_to_dat_data npcs = map_result npc_to_dat_data npcs"


section \<open>Log messages\<close>

text \<open>
  The logger is a side effect of the source; every function that logs returns the list of
  its messages with its result. Each constructor of \<open>message\<close> is one message template
  of the source, carrying the interpolated values.
\<close>

datatype log_level = LogDebug | LogWarn | LogError

datatype message =
    NoDatFile
  | NoBinFile
  | NoLabel0Instruction
  | NoInstructionLabels
  | NoSetEpisode
  | CantParseQst string
  | ChunkAlreadyEncountered nat string
  | DataSegmentTooLarge nat
  | BytesLeftInFile nat
  | ActualSizeDiffers string nat nat
  | MissingChunk string nat

type_synonym log = "(log_level \<times> message) list"

section \<open>JavaScript maps, sets and strings\<close>

text \<open>
  A \<^verbatim>\<open>Map\<close> keeps its entries in insertion order; \<^verbatim>\<open>set\<close> on a key that is present
  replaces the value in place. A \<^verbatim>\<open>Set\<close> is the insertion-ordered list of its members.
\<close>

type_synonym ('k, 'v) js_map = "('k \<times> 'v) list"

fun js_map_set :: "('k, 'v) js_map \<Rightarrow> 'k \<Rightarrow> 'v \<Rightarrow> ('k, 'v) js_map" where
  "js_map_set [] k v = [(k, v)]"
| "js_map_set ((k', v') # m) k v =
     (if k' = k then (k, v) # m else (k', v') # js_map_set m k v)"

definition js_map_of_entries :: "('k \<times> 'v) list \<Rightarrow> ('k, 'v) js_map" where
  "js_map_of_entries entries = foldl (\<lambda>m (k, v). js_map_set m k v) [] entries"

definition js_map_get :: "('k, 'v) js_map \<Rightarrow> 'k \<Rightarrow> 'v option" where
  "js_map_get m k = map_of m k"

definition js_map_values :: "('k, 'v) js_map \<Rightarrow> 'v list" where
  "js_map_values m = map snd m"

definition js_set_add :: "'a list \<Rightarrow> 'a \<Rightarrow> 'a list" where
  "js_set_add s a = (if a \<in> set s then s else s @ [a])"

text \<open>
  Strings are lists of 8-bit characters. \<^verbatim>\<open>trim\<close> removes the white space of that range
  from both ends, \<^verbatim>\<open>toLowerCase\<close> maps the capital letters of that range.
\<close>

definition js_whitespace :: "char \<Rightarrow> bool" where
  "js_whitespace c = ((of_char c :: nat) \<in> {9, 10, 11, 12, 13, 32, 160})"

definition js_trim :: "string \<Rightarrow> string" where
  "js_trim s = rev (dropWhile js_whitespace (rev (dropWhile js_whitespace s)))"

definition js_lower_char :: "char \<Rightarrow> char" where
  "js_lower_char c =
     (let n = (of_char c :: nat)
      in if (65 \<le> n \<and> n \<le> 90) \<or> (192 \<le> n \<and> n \<le> 222 \<and> n \<noteq> 215)
         then char_of (n + 32) else c)"

definition js_toLowerCase :: "string \<Rightarrow> string" where
  "js_toLowerCase s = map js_lower_char s"

definition js_endsWith :: "string \<Rightarrow> string \<Rightarrow> bool" where
  "js_endsWith s t = (length t \<le> length s \<and> drop (length s - length t) s = t)"

text \<open>\<^verbatim>\<open>lastIndexOf\<close>: \<open>None\<close> is the result \<^verbatim>\<open>-1\<close>.\<close>

definition js_lastIndexOf :: "string \<Rightarrow> char \<Rightarrow> nat option" where
  "js_lastIndexOf s c =
     (if c \<in> set s then Some (length s - 1 - length (takeWhile (\<lambda>d. d \<noteq> c) (rev s)))
      else None)"

section \<open>Objects, bytecode segments and the quest aggregate\<close>

text \<open>
  The enumeration \<^verbatim>\<open>ObjectType\<close> is declared outside these sources;
  \<^verbatim>\<open>parse_obj_data\<close> names four of its members.
\<close>

datatype ObjectType =
    ScriptCollision | ForestConsole | TalkLinkToSupport | RicoMessagePod
  | OtherObjectType nat

record DatObject =
  dobj_type_id :: int
  dobj_id :: int
  dobj_group_id :: int
  dobj_section_id :: int
  dobj_position :: "number Vec3"
  dobj_rotation :: "number Vec3"
  dobj_properties :: "number list"
  dobj_area_id :: int
  dobj_unknown :: "int list list"

text \<open>
  The keys of an object's property map: the strings \<^verbatim>\<open>script_label\<close>,
  \<^verbatim>\<open>script_label_2\<close> and \<^verbatim>\<open>property_${index}\<close>.
\<close>

datatype property_key = Key_script_label | Key_script_label_2 | Key_property nat

record QuestObject =
  qobj_type :: ObjectType
  qobj_id :: int
  qobj_group_id :: int
  qobj_area_id :: int
  qobj_section_id :: int
  qobj_position :: "number Vec3"
  qobj_rotation :: "number Vec3"
  qobj_properties :: "(property_key, number) js_map"
  qobj_unknown :: "int list list"

text \<open>An unknown DAT record is an opaque span of bytes.\<close>

type_synonym byte = "8 word"

type_synonym DatUnknown = "byte list"

record DatFile =
  dat_objs :: "DatObject list"
  dat_npcs :: "DatNpc list"
  dat_unknowns :: "DatUnknown list"

text \<open>
  Instructions and segments are declared outside these sources. The opcodes that
  \<^verbatim>\<open>parse_quest\<close> compares with are named; an argument has a value and a byte size.
\<close>

datatype Opcode = SET_EPISODE | BB_MAP_DESIGNATE | OtherOpcode nat

record Arg =
  arg_value :: int
  arg_size :: nat

record Instruction =
  ins_opcode :: Opcode
  ins_args :: "Arg list"

datatype Segment =
    InstructionSegment "Instruction list" "int list"
  | DataSegment "byte list"
  | StringSegment string

datatype Episode = Episode_I | Episode_II | Episode_IV

text \<open>The numeric values of \<^verbatim>\<open>enum Episode { I = 1, II = 2, IV = 4 }\<close>.\<close>

fun episode_number :: "Episode \<Rightarrow> int" where
  "episode_number Episode_I = 1"
| "episode_number Episode_II = 2"
| "episode_number Episode_IV = 4"

record BinFile =
  bin_quest_id :: int
  bin_language :: int
  bin_quest_name :: string
  bin_short_description :: string
  bin_long_description :: string
  bin_object_code :: "Segment list"
  bin_shop_items :: "int list"

record Quest =
  q_id :: int
  q_language :: int
  q_name :: string
  q_short_description :: string
  q_long_description :: string
  q_episode :: Episode
  q_objects :: "QuestObject list"
  q_npcs :: "QuestNpc list"
  q_dat_unknowns :: "DatUnknown list"
  q_object_code :: "Segment list"
  q_shop_items :: "int list"
  q_map_designations :: "(int, int) js_map"


section \<open>The lower layers\<close>

text \<open>
  \<^verbatim>\<open>parse_quest\<close> and \<^verbatim>\<open>write_quest_qst\<close> call the container codec
  (\<^verbatim>\<open>parse_qst\<close>, \<^verbatim>\<open>write_qst\<close>), the compression (\<^verbatim>\<open>prs_decompress\<close>,
  \<^verbatim>\<open>prs_compress\<close>), the DAT and BIN codecs and the object type tables of other
  modules. They are parameters of the model. This layer never looks inside a buffer, so
  the type \<open>'b\<close> of buffers is a parameter as well. A decoder returns \<open>Inl\<close> where it
  throws; \<^verbatim>\<open>parse_qst\<close> returns \<open>None\<close> for \<^verbatim>\<open>undefined\<close>. The non-null assertion
  \<^verbatim>\<open>object_data(object.type).pso_id!\<close> is the function \<open>object_data_pso_id\<close>.
\<close>

record 'b QstContainedFile =
  qf_name :: string
  qf_id :: "int option"
  qf_data :: 'b

record 'b lower_layers =
  parse_qst :: "'b \<Rightarrow> error + 'b QstContainedFile list option"
  write_qst :: "'b QstContainedFile list \<Rightarrow> error + 'b"
  prs_decompress :: "'b \<Rightarrow> error + 'b"
  prs_compress :: "'b \<Rightarrow> 'b"
  parse_dat :: "'b \<Rightarrow> error + DatFile"
  write_dat :: "DatFile \<Rightarrow> 'b"
  parse_bin :: "'b \<Rightarrow> number list \<Rightarrow> bool \<Rightarrow> error + BinFile"
  write_bin :: "BinFile \<Rightarrow> 'b"
  pso_id_to_object_type :: "int \<Rightarrow> ObjectType"
  object_data_pso_id :: "ObjectType \<Rightarrow> int"

section \<open>Decoding a quest: \<^verbatim>\<open>parse_quest\<close>\<close>

definition get_episode :: "Instruction list \<Rightarrow> log \<times> (error + Episode)" where
  "get_episode func_0_instructions =
     (case find (\<lambda>instruction. ins_opcode instruction = SET_EPISODE) func_0_instructions of
        Some set_episode \<Rightarrow>
          (case ins_args set_episode of
             [] \<Rightarrow> ([], Inl TypeError)
           | a # _ \<Rightarrow>
               ([], Inr (if arg_value a = 1 then Episode_II
                         else if arg_value a = 2 then Episode_IV
                         else Episode_I)))
      | None \<Rightarrow> ([(LogDebug, NoSetEpisode)], Inr Episode_I))"

text \<open>
  The loop of \<^verbatim>\<open>extract_map_designations\<close>, with the map built so far.
  \<^verbatim>\<open>inst.args[0].value\<close> and \<^verbatim>\<open>inst.args[2].value\<close> throw a \<^verbatim>\<open>TypeError\<close> when the
  instruction has fewer than three arguments.
\<close>

fun map_designations_loop ::
  "Instruction list \<Rightarrow> (int, int) js_map \<Rightarrow> error + (int, int) js_map" where
  "map_designations_loop [] map_designations = Inr map_designations"
| "map_designations_loop (inst # insts) map_designations =
     (if ins_opcode inst = BB_MAP_DESIGNATE then
        (if length (ins_args inst) < 3 then Inl TypeError
         else map_designations_loop insts
                (js_map_set map_designations (arg_value (ins_args inst ! 0))
                   (arg_value (ins_args inst ! 2))))
      else map_designations_loop insts map_designations)"

definition extract_map_designations ::
  "DatFile \<Rightarrow> Episode \<Rightarrow> Instruction list \<Rightarrow> error + (int, int) js_map" where
  "extract_map_designations dat episode func_0_instructions =
     map_designations_loop func_0_instructions []"

definition parse_obj_data :: "'b lower_layers \<Rightarrow> DatObject list \<Rightarrow> QuestObject list" where
  "parse_obj_data env objs =
     map (\<lambda>obj_data.
       let type = pso_id_to_object_type env (dobj_type_id obj_data)
       in \<lparr> qobj_type = type,
            qobj_id = dobj_id obj_data,
            qobj_group_id = dobj_group_id obj_data,
            qobj_area_id = dobj_area_id obj_data,
            qobj_section_id = dobj_section_id obj_data,
            qobj_position = dobj_position obj_data,
            qobj_rotation = dobj_rotation obj_data,
            qobj_properties = js_map_of_entries
              (map (\<lambda>(index, v).
                 if index = 3 \<and> (type = ScriptCollision \<or> type = ForestConsole
                                  \<or> type = TalkLinkToSupport)
                 then (Key_script_label, v)
                 else if index = 4 \<and> type = RicoMessagePod then (Key_script_label, v)
                 else if index = 5 \<and> type = RicoMessagePod then (Key_script_label_2, v)
                 else (Key_property index, v))
                 (enumerate 0 (dobj_properties obj_data))),
            qobj_unknown = dobj_unknown obj_data \<rparr>) objs"

definition extract_script_entry_points :: "QuestObject list \<Rightarrow> DatNpc list \<Rightarrow> number list" where
  "extract_script_entry_points objects npcs =
     (let entry_points =
            foldl (\<lambda>s obj.
              let s1 = (case js_map_get (qobj_properties obj) Key_script_label of
                          Some entry_point \<Rightarrow> js_set_add s entry_point
                        | None \<Rightarrow> s)
              in case js_map_get (qobj_properties obj) Key_script_label_2 of
                   Some entry_point_2 \<Rightarrow> js_set_add s1 entry_point_2
                 | None \<Rightarrow> s1) [0] objects
      in foldl (\<lambda>s npc. js_set_add s (of_int (js_round (dnpc_script_label npc))))
           entry_points npcs)"

text \<open>
  The loop of \<^verbatim>\<open>parse_quest\<close> over \<^verbatim>\<open>qst.files\<close>: the last file whose trimmed, lower-case
  name ends with \<^verbatim>\<open>.dat\<close>, and the last one that ends with \<^verbatim>\<open>.bin\<close>.
\<close>

definition find_dat_bin ::
  "'b QstContainedFile list \<Rightarrow> 'b QstContainedFile option \<times> 'b QstContainedFile option" where
  "find_dat_bin files =
     foldl (\<lambda>(dat_file, bin_file) file.
       let file_name = js_toLowerCase (js_trim (qf_name file))
       in if js_endsWith file_name ''.dat'' then (Some file, bin_file)
          else if js_endsWith file_name ''.bin'' then (dat_file, Some file)
          else (dat_file, bin_file)) (None, None) files"

text \<open>
  The part of \<^verbatim>\<open>parse_quest\<close> that extracts the episode and the map designations from
  the object code.
\<close>

fun find_label_0 :: "Segment list \<Rightarrow> Instruction list option" where
  "find_label_0 [] = None"
| "find_label_0 (InstructionSegment instructions labels # segments) =
     (if 0 \<in> set labels then Some instructions else find_label_0 segments)"
| "find_label_0 (DataSegment _ # segments) = find_label_0 segments"
| "find_label_0 (StringSegment _ # segments) = find_label_0 segments"

definition episode_and_map_designations ::
  "DatFile \<Rightarrow> Segment list \<Rightarrow> log \<times> (error + Episode \<times> (int, int) js_map)" where
  "episode_and_map_designations dat object_code =
     (if object_code \<noteq> [] then
        (case find_label_0 object_code of
           Some label_0_instructions \<Rightarrow>
             (case get_episode label_0_instructions of
                (l, Inl e) \<Rightarrow> (l, Inl e)
              | (l, Inr episode) \<Rightarrow>
                  (case extract_map_designations dat episode label_0_instructions of
                     Inl e \<Rightarrow> (l, Inl e)
                   | Inr map_designations \<Rightarrow> (l, Inr (episode, map_designations))))
         | None \<Rightarrow> ([(LogWarn, NoLabel0Instruction)], Inr (Episode_I, [])))
      else ([(LogWarn, NoInstructionLabels)], Inr (Episode_I, [])))"

definition parse_quest :: "'b lower_layers \<Rightarrow> 'b \<Rightarrow> bool \<Rightarrow> log \<times> (error + Quest option)" where
  "parse_quest env cursor lenient =
     (case parse_qst env cursor of
        Inl e \<Rightarrow> ([], Inl e)
      | Inr None \<Rightarrow> ([], Inr None)
      | Inr (Some qst_files) \<Rightarrow>
     (case find_dat_bin qst_files of
        (None, _) \<Rightarrow> ([(LogError, NoDatFile)], Inr None)
      | (Some dat_file, None) \<Rightarrow> ([(LogError, NoBinFile)], Inr None)
      | (Some dat_file, Some bin_file) \<Rightarrow>
     (case prs_decompress env (qf_data dat_file) of
        Inl e \<Rightarrow> ([], Inl e)
      | Inr dat_decompressed \<Rightarrow>
     (case parse_dat env dat_decompressed of
        Inl e \<Rightarrow> ([], Inl e)
      | Inr dat \<Rightarrow>
     (let objects = parse_obj_data env (dat_objs dat) in
     (case prs_decompress env (qf_data bin_file) of
        Inl e \<Rightarrow> ([], Inl e)
      | Inr bin_decompressed \<Rightarrow>
     (case parse_bin env bin_decompressed
             (extract_script_entry_points objects (dat_npcs dat)) lenient of
        Inl e \<Rightarrow> ([], Inl e)
      | Inr bin \<Rightarrow>
     (case episode_and_map_designations dat (bin_object_code bin) of
        (l, Inl e) \<Rightarrow> (l, Inl e)
      | (l, Inr (episode, map_designations)) \<Rightarrow>
          (l, Inr (Some
             \<lparr> q_id = bin_quest_id bin,
               q_language = bin_language bin,
               q_name = bin_quest_name bin,
               q_short_description = bin_short_description bin,
               q_long_description = bin_long_description bin,
               q_episode = episode,
               q_objects = objects,
               q_npcs = parse_npc_data (episode_number episode) (dat_npcs dat),
               q_dat_unknowns = dat_unknowns dat,
               q_object_code = bin_object_code bin,
               q_shop_items = bin_shop_items bin,
               q_map_designations = map_designations \<rparr>))))))))))"

section \<open>Encoding a quest: \<^verbatim>\<open>write_quest_qst\<close>\<close>

definition objects_to_dat_data :: "'b lower_layers \<Rightarrow> QuestObject list \<Rightarrow> DatObject list" where
  "objects_to_dat_data env objects =
     map (\<lambda>object.
       \<lparr> dobj_type_id = object_data_pso_id env (qobj_type object),
         dobj_id = qobj_id object,
         dobj_group_id = qobj_group_id object,
         dobj_section_id = qobj_section_id object,
         dobj_position = qobj_position object,
         dobj_rotation = qobj_rotation object,
         dobj_properties = js_map_values (qobj_properties object),
         dobj_area_id = qobj_area_id object,
         dobj_unknown = qobj_unknown object \<rparr>) objects"

definition write_quest_qst :: "'b lower_layers \<Rightarrow> Quest \<Rightarrow> string \<Rightarrow> error + 'b" where
  "write_quest_qst env quest file_name =
     (let objs = objects_to_dat_data env (q_objects quest) in
      case npcs_to_dat_data (q_npcs quest) of
        Inl e \<Rightarrow> Inl e
      | Inr npcs \<Rightarrow>
     (let dat = write_dat env
                  \<lparr> dat_objs = objs, dat_npcs = npcs, dat_unknowns = q_dat_unknowns quest \<rparr>;
          bin = write_bin env
                  \<lparr> bin_quest_id = q_id quest,
                    bin_language = q_language quest,
                    bin_quest_name = q_name quest,
                    bin_short_description = q_short_description quest,
                    bin_long_description = q_long_description quest,
                    bin_object_code = q_object_code quest,
                    bin_shop_items = q_shop_items quest \<rparr>;
          base_file_name =
            (case js_lastIndexOf file_name CHR ''.'' of
               None \<Rightarrow> take 11 file_name
             | Some ext_start \<Rightarrow> take (min 11 ext_start) file_name)
      in write_qst env
           [ \<lparr> qf_name = base_file_name @ ''.dat'', qf_id = Some (q_id quest),
               qf_data = prs_compress env dat \<rparr>,
             \<lparr> qf_name = base_file_name @ ''.bin'', qf_id = Some (q_id quest),
               qf_data = prs_compress env bin \<rparr> ]))"

section \<open>What the lower layers yield\<close>

text \<open>
  \<open>lower_layers_yield env cursor lenient dat bin\<close>: on the archive \<open>cursor\<close> the lower
  layers succeed, and \<^verbatim>\<open>parse_quest\<close> obtains from them the decoded DAT file \<open>dat\<close> and
  the decoded BIN file \<open>bin\<close>.
\<close>

definition lower_layers_yield ::
  "'b lower_layers \<Rightarrow> 'b \<Rightarrow> bool \<Rightarrow> DatFile \<Rightarrow> BinFile \<Rightarrow> bool" where
  "lower_layers_yield env cursor lenient dat bin =
     (case parse_qst env cursor of
        Inl e \<Rightarrow> False
      | Inr None \<Rightarrow> False
      | Inr (Some qst_files) \<Rightarrow>
     (case fst (find_dat_bin qst_files) of
        None \<Rightarrow> False
      | Some dat_file \<Rightarrow>
     (case snd (find_dat_bin qst_files) of
        None \<Rightarrow> False
      | Some bin_file \<Rightarrow>
     (case prs_decompress env (qf_data dat_file) of
        Inl e \<Rightarrow> False
      | Inr dat_decompressed \<Rightarrow>
     (case prs_decompress env (qf_data bin_file) of
        Inl e \<Rightarrow> False
      | Inr bin_decompressed \<Rightarrow>
          parse_dat env dat_decompressed = Inr dat
          \<and> parse_bin env bin_decompressed
              (extract_script_entry_points (parse_obj_data env (dat_objs dat)) (dat_npcs dat))
              lenient = Inr bin)))))"

text \<open>
  The arities of the opcode table for the two opcodes that \<^verbatim>\<open>parse_quest\<close> reads:
  \<^verbatim>\<open>set_episode\<close> has one argument and \<^verbatim>\<open>bb_map_designate\<close> four.
\<close>

definition well_formed_instruction :: "Instruction \<Rightarrow> bool" where
  "well_formed_instruction inst =
     (if ins_opcode inst = SET_EPISODE then length (ins_args inst) = 1
      else if ins_opcode inst = BB_MAP_DESIGNATE then length (ins_args inst) = 4
      else True)"


section \<open>Scale-based disambiguation\<close>

text \<open>
  The raw records whose \<^verbatim>\<open>case\<close> in \<^verbatim>\<open>get_npc_type\<close> reads the flag
  \<^verbatim>\<open>regular\<close>: the type codes \<open>0x119\<close> (Episode IV), \<open>0x043\<close> and \<open>0x061\<close>
  (Episodes I and II; for \<open>0x061\<close> only where the area id does not decide),
  \<open>0x064\<close> and \<open>0x082\<close> (Episode I) and \<open>0x111\<close> (Episode IV).
\<close>

definition scale_decides :: "int \<Rightarrow> DatNpc \<Rightarrow> bool" where
  "scale_decides episode npc =
     (let t = dnpc_type_id npc; r = js_rem (dnpc_roaming npc) 2
      in (t = 0x119 \<and> episode = 4 \<and> (r = 0 \<or> r = 1))
       \<or> (t = 0x043 \<and> (episode = 1 \<or> episode = 2))
       \<or> (t = 0x061 \<and> (episode = 1 \<or> episode = 2) \<and> \<not> 15 < dnpc_area_id npc)
       \<or> (t = 0x064 \<and> episode = 1)
       \<or> (t = 0x082 \<and> episode = 1)
       \<or> (t = 0x111 \<and> episode = 4))"

section \<open>Example values\<close>

text \<open>
  Concrete records on which the functions above are run: a raw NPC with a given type code,
  roaming value and \<^verbatim>\<open>scale.y\<close>, a decoded NPC, and a quest around a list of NPCs.
\<close>

definition example_npc :: "int \<Rightarrow> int \<Rightarrow> f32 \<Rightarrow> DatNpc" where
  "example_npc t r sy =
     \<lparr> dnpc_type_id = t, dnpc_section_id = 1, dnpc_position = Vec3 0 0 0,
       dnpc_rotation = Vec3 0 0 0, dnpc_scale = Vec3 0x3F800000 sy 0x3F800000,
       dnpc_npc_id = 0, dnpc_script_label = 0, dnpc_roaming = r, dnpc_area_id = 1,
       dnpc_unknown = [] \<rparr>"

definition example_quest_npc :: "NpcType \<Rightarrow> int \<Rightarrow> int \<Rightarrow> QuestNpc" where
  "example_quest_npc t type_id r =
     \<lparr> qnpc_type = t, qnpc_area_id = 1, qnpc_section_id = 1, qnpc_position = Vec3 0 0 0,
       qnpc_rotation = Vec3 0 0 0, qnpc_scale = Vec3 0x3F800000 0x3F800000 0x3F800000,
       qnpc_unknown = [], qnpc_pso_type_id = type_id, qnpc_npc_id = 0, qnpc_script_label = 0,
       qnpc_roaming = r \<rparr>"

definition example_quest :: "QuestNpc list \<Rightarrow> Segment list \<Rightarrow> Quest" where
  "example_quest npcs object_code =
     \<lparr> q_id = 1, q_language = 0, q_name = ''q'', q_short_description = [],
       q_long_description = [], q_episode = Episode_I, q_objects = [], q_npcs = npcs,
       q_dat_unknowns = [], q_object_code = object_code, q_shop_items = [],
       q_map_designations = [] \<rparr>"

definition example_dat :: "DatNpc list \<Rightarrow> DatFile" where
  "example_dat npcs = \<lparr> dat_objs = [], dat_npcs = npcs, dat_unknowns = [] \<rparr>"

definition example_bin :: "Segment list \<Rightarrow> BinFile" where
  "example_bin object_code =
     \<lparr> bin_quest_id = 1, bin_language = 0, bin_quest_name = ''q'',
       bin_short_description = [], bin_long_description = [],
       bin_object_code = object_code, bin_shop_items = [] \<rparr>"

text \<open>
  An instance of the lower layers in which a buffer is the value it encodes: every codec of
  this instance is lossless. It stands in for the modules outside these sources where a
  run of \<^verbatim>\<open>parse_quest\<close> or \<^verbatim>\<open>write_quest_qst\<close> is evaluated.
\<close>

datatype blob =
    QstBlob "(string \<times> int option \<times> blob) list"
  | DatBlob DatFile
  | BinBlob BinFile
  | Compressed blob

definition example_layers :: "blob lower_layers" where
  "example_layers =
     \<lparr> parse_qst = (\<lambda>b. case b of
           QstBlob fs \<Rightarrow>
             Inr (Some (map (\<lambda>(n, i, d). \<lparr> qf_name = n, qf_id = i, qf_data = d \<rparr>) fs))
         | _ \<Rightarrow> Inr None),
       write_qst = (\<lambda>fs. Inr (QstBlob (map (\<lambda>f. (qf_name f, qf_id f, qf_data f)) fs))),
       prs_decompress = (\<lambda>b. case b of Compressed c \<Rightarrow> Inr c | _ \<Rightarrow> Inl (LowerLayerError 1)),
       prs_compress = Compressed,
       parse_dat = (\<lambda>b. case b of DatBlob d \<Rightarrow> Inr d | _ \<Rightarrow> Inl (LowerLayerError 2)),
       write_dat = DatBlob,
       parse_bin = (\<lambda>b entry_points lenient.
         case b of BinBlob f \<Rightarrow> Inr f | _ \<Rightarrow> Inl (LowerLayerError 3)),
       write_bin = BinBlob,
       pso_id_to_object_type = (\<lambda>i.
         if i = 1 then ScriptCollision else if i = 2 then ForestConsole
         else if i = 3 then TalkLinkToSupport else if i = 4 then RicoMessagePod
         else OtherObjectType (nat i)),
       object_data_pso_id = (\<lambda>t. case t of
           ScriptCollision \<Rightarrow> 1 | ForestConsole \<Rightarrow> 2 | TalkLinkToSupport \<Rightarrow> 3
         | RicoMessagePod \<Rightarrow> 4 | OtherObjectType n \<Rightarrow> int n) \<rparr>"

definition example_archive :: "DatFile \<Rightarrow> BinFile \<Rightarrow> blob" where
  "example_archive dat bin =
     QstBlob [(''quest.dat'', Some 1, Compressed (DatBlob dat)),
              (''quest.bin'', Some 1, Compressed (BinBlob bin))]"

section \<open>Properties of the NPC tables\<close>

lemmas f32_defs = differs_from_one_def f32_exponent_def f32_mantissa_def f32_value_def

lemmas npc_tables =
  npc_type_by_roaming3_def npc_type_by_roaming2_def npc_type_by_episode_def
  npc_type_by_type_id_def

text \<open>For a roaming value that is not negative, \<^verbatim>\<open>%\<close> is the remainder of the division.\<close>

lemma js_rem_nonneg: "0 \<le> a \<Longrightarrow> js_rem a b = a mod \<bar>b\<bar>"
  by (cases "a = 0") (simp_all add: js_rem_def)

text \<open>One step along a chain of \<^verbatim>\<open>case\<close> labels.\<close>

lemma if_chain_step:
  assumes "(if c then v else rest) = r"
    and "c \<Longrightarrow> v = r \<Longrightarrow> R"
    and "rest = r \<Longrightarrow> R"
  shows R
  using assms by (cases c) simp_all

lemma npc_type_to_dat_data_undefined:
  "npc_type_to_dat_data t = Inr None \<Longrightarrow> t = Unknown"
  unfolding npc_type_to_dat_data_def
  apply (erule if_chain_step, (simp; fail))+
  by simp

lemma npc_type_to_dat_data_throws:
  "npc_type_to_dat_data t = Inl e \<Longrightarrow> e = UnexpectedType t"
  unfolding npc_type_to_dat_data_def
  apply (erule if_chain_step, (simp; fail))+
  by simp

lemma map_result_Inl:
  "a \<in> set as \<Longrightarrow> f a = Inl e \<Longrightarrow> \<exists>e'. map_result f as = Inl e'"
  by (induction as) (auto split: sum.splits)

text \<open>
  C2. An NPC record with raw type code \<open>0x044\<close> whose roaming value has remainder 1 modulo
  3 decodes, in Episode I, to Gobooma; Gobooma encodes to the raw type code \<open>0x044\<close>, the
  roaming value 1 and the regular flag true.
\<close>

theorem gobooma_decode_encode:
  assumes "dnpc_type_id npc = 0x044"
    and "js_rem (dnpc_roaming npc) 3 = 1"
  shows "get_npc_type (episode_number Episode_I) npc = Gobooma
       \<and> npc_type_to_dat_data Gobooma =
           Inr (Some \<lparr>td_type_id = 0x044, td_roaming = 1, td_regular = True\<rparr>)"
  using assms by (simp add: get_npc_type_def npc_type_by_roaming3_def npc_type_to_dat_data_def)

theorem gobooma_decode_encode_witness:
  "dnpc_type_id (example_npc 0x044 4 0x3F800000) = 0x044
   \<and> js_rem (dnpc_roaming (example_npc 0x044 4 0x3F800000)) 3 = 1
   \<and> get_npc_type (episode_number Episode_I) (example_npc 0x044 4 0x3F800000) = Gobooma
   \<and> npc_type_to_dat_data Gobooma =
        Inr (Some \<lparr>td_type_id = 0x044, td_roaming = 1, td_regular = True\<rparr>)"
proof -
  have 1: "dnpc_type_id (example_npc 0x044 4 0x3F800000) = 0x044"
    by (simp add: example_npc_def)
  have 2: "js_rem (dnpc_roaming (example_npc 0x044 4 0x3F800000)) 3 = 1"
    by (simp add: example_npc_def js_rem_def)
  from gobooma_decode_encode [OF 1 2] 1 2 show ?thesis by blast
qed

text \<open>
  C3, as amended. For an NPC record whose type code needs the scale to be told apart,
  \<open>|scale.y - 1| > 0.00001\<close> marks the regular variant (Savage Wolf and Pofuilly Slime
  among them) and \<open>|scale.y - 1| \<le> 0.00001\<close> the alternate one (Barbarous Wolf,
  Pouilly Slime).
\<close>

theorem scale_marks_regular_variant:
  assumes "scale_decides episode npc"
  shows "(differs_from_one (vec_y (dnpc_scale npc)) \<longrightarrow>
            get_npc_type episode npc \<in>
              {SaintMilion, Shambertin, SavageWolf, SavageWolf2, PoisonLily, PoisonLily2,
               PofuillySlime, SinowBeat, SatelliteLizard})
       \<and> (\<not> differs_from_one (vec_y (dnpc_scale npc)) \<longrightarrow>
            get_npc_type episode npc \<in>
              {Kondrieu, BarbarousWolf, BarbarousWolf2, NarLily, NarLily2, PouillySlime,
               SinowGold, Yowie})
       \<and> (dnpc_type_id npc = 0x043 \<and> episode = 1 \<longrightarrow>
            get_npc_type episode npc =
              (if differs_from_one (vec_y (dnpc_scale npc)) then SavageWolf else BarbarousWolf))
       \<and> (dnpc_type_id npc = 0x064 \<and> episode = 1 \<longrightarrow>
            get_npc_type episode npc =
              (if differs_from_one (vec_y (dnpc_scale npc)) then PofuillySlime
               else PouillySlime))"
  using assms unfolding scale_decides_def Let_def
  apply (elim disjE conjE)
  apply (simp_all add: get_npc_type_def npc_tables)
  done

theorem scale_marks_regular_variant_witness:
  "scale_decides 1 (example_npc 0x043 0 0x40000000)
   \<and> differs_from_one (vec_y (dnpc_scale (example_npc 0x043 0 0x40000000)))
   \<and> get_npc_type 1 (example_npc 0x043 0 0x40000000) = SavageWolf
   \<and> scale_decides 1 (example_npc 0x064 0 0x3F800000)
   \<and> \<not> differs_from_one (vec_y (dnpc_scale (example_npc 0x064 0 0x3F800000)))
   \<and> get_npc_type 1 (example_npc 0x064 0 0x3F800000) = PouillySlime"
proof -
  have 1: "scale_decides 1 (example_npc 0x043 0 0x40000000)"
    by (simp add: scale_decides_def example_npc_def)
  have 2: "differs_from_one (vec_y (dnpc_scale (example_npc 0x043 0 0x40000000)))"
    by (simp add: example_npc_def f32_defs)
  have 3: "dnpc_type_id (example_npc 0x043 0 0x40000000) = 0x043 \<and> (1::int) = 1"
    by (simp add: example_npc_def)
  have 4: "scale_decides 1 (example_npc 0x064 0 0x3F800000)"
    by (simp add: scale_decides_def example_npc_def)
  have 5: "\<not> differs_from_one (vec_y (dnpc_scale (example_npc 0x064 0 0x3F800000)))"
    by (simp add: example_npc_def f32_defs)
  have 6: "dnpc_type_id (example_npc 0x064 0 0x3F800000) = 0x064 \<and> (1::int) = 1"
    by (simp add: example_npc_def)
  from scale_marks_regular_variant [OF 1] 2 3
  have 7: "get_npc_type 1 (example_npc 0x043 0 0x40000000) = SavageWolf"
    by presburger
  from scale_marks_regular_variant [OF 4] 5 6
  have 8: "get_npc_type 1 (example_npc 0x064 0 0x3F800000) = PouillySlime"
    by presburger
  from 1 2 4 5 7 8 show ?thesis by blast
qed

text \<open>
  The claim as stated fails: a wolf record of Episode I with \<open>scale.y = 2\<close> (pattern
  \<open>0x40000000\<close>) has \<open>|scale.y - 1| > 0.00001\<close> and decodes to Savage Wolf, the variant
  that the encoder writes with the regular flag true; with \<open>scale.y = 1\<close> (pattern
  \<open>0x3F800000\<close>) it decodes to Barbarous Wolf, written with the regular flag false.
\<close>

theorem scale_marks_alternate_counterexample:
  "differs_from_one (vec_y (dnpc_scale (example_npc 0x043 0 0x40000000)))
   \<and> get_npc_type 1 (example_npc 0x043 0 0x40000000) = SavageWolf
   \<and> npc_type_to_dat_data SavageWolf =
       Inr (Some \<lparr>td_type_id = 0x043, td_roaming = 0, td_regular = True\<rparr>)
   \<and> \<not> differs_from_one (vec_y (dnpc_scale (example_npc 0x043 0 0x3F800000)))
   \<and> get_npc_type 1 (example_npc 0x043 0 0x3F800000) = BarbarousWolf
   \<and> npc_type_to_dat_data BarbarousWolf =
       Inr (Some \<lparr>td_type_id = 0x043, td_roaming = 0, td_regular = False\<rparr>)"
  by (simp add: example_npc_def get_npc_type_def npc_tables f32_defs js_rem_def
        npc_type_to_dat_data_def)

text \<open>
  C5, as amended. A quest that contains an NPC whose type is not Unknown and has no inverse
  mapping to a triple of raw type code, roaming value and regular flag cannot be encoded:
  \<^verbatim>\<open>npcs_to_dat_data\<close> and \<^verbatim>\<open>write_quest_qst\<close> raise, whatever the lower layers are.
\<close>

theorem unmapped_npc_type_aborts_encoding:
  assumes "npc \<in> set (q_npcs quest)"
    and "qnpc_type npc \<noteq> Unknown"
    and "\<forall>d. npc_type_to_dat_data (qnpc_type npc) \<noteq> Inr (Some d)"
  shows "(\<exists>e. npcs_to_dat_data (q_npcs quest) = Inl e)
       \<and> (\<exists>e. write_quest_qst env quest file_name = Inl e)"
proof -
  obtain e where e: "npc_type_to_dat_data (qnpc_type npc) = Inl e"
  proof (cases "npc_type_to_dat_data (qnpc_type npc)")
    case (Inl e)
    then show ?thesis using that by blast
  next
    case (Inr r)
    with assms(2,3) show ?thesis
      by (cases r) (auto dest: npc_type_to_dat_data_undefined)
  qed
  then have "npc_to_dat_data npc = Inl e"
    by (simp add: npc_to_dat_data_def)
  with assms(1) obtain e' where "npcs_to_dat_data (q_npcs quest) = Inl e'"
    unfolding npcs_to_dat_data_def by (blast dest: map_result_Inl)
  then show ?thesis
    by (simp add: write_quest_qst_def Let_def)
qed

theorem unmapped_npc_type_aborts_encoding_witness:
  "example_quest_npc VolOptPart1 0x0C2 0
     \<in> set (q_npcs (example_quest [example_quest_npc VolOptPart1 0x0C2 0] []))
   \<and> qnpc_type (example_quest_npc VolOptPart1 0x0C2 0) \<noteq> Unknown
   \<and> (\<forall>d. npc_type_to_dat_data (qnpc_type (example_quest_npc VolOptPart1 0x0C2 0))
           \<noteq> Inr (Some d))
   \<and> (\<exists>e. npcs_to_dat_data (q_npcs (example_quest [example_quest_npc VolOptPart1 0x0C2 0] []))
           = Inl e)
   \<and> (\<exists>e. write_quest_qst example_layers
            (example_quest [example_quest_npc VolOptPart1 0x0C2 0] []) ''quest.qst'' = Inl e)"
proof -
  have 1: "example_quest_npc VolOptPart1 0x0C2 0
             \<in> set (q_npcs (example_quest [example_quest_npc VolOptPart1 0x0C2 0] []))"
    by (simp add: example_quest_def)
  have 2: "qnpc_type (example_quest_npc VolOptPart1 0x0C2 0) \<noteq> Unknown"
    by (simp add: example_quest_npc_def)
  have 3: "\<forall>d. npc_type_to_dat_data (qnpc_type (example_quest_npc VolOptPart1 0x0C2 0))
             \<noteq> Inr (Some d)"
    by (simp add: example_quest_npc_def npc_type_to_dat_data_def)
  from unmapped_npc_type_aborts_encoding [OF 1 2 3, of example_layers "''quest.qst''"] 1 2 3
  show ?thesis by blast
qed

text \<open>
  The claim as stated fails for the type Unknown: it has no inverse mapping to a triple
  (\<^verbatim>\<open>npc_type_to_dat_data\<close> returns \<^verbatim>\<open>undefined\<close>), and a quest with such an NPC is
  encoded, the NPC keeping its raw type code and roaming value.
\<close>

theorem unknown_npc_type_encodes_counterexample:
  "npc_type_to_dat_data (qnpc_type (example_quest_npc Unknown 0x0C2 5)) = Inr None
   \<and> write_quest_qst example_layers (example_quest [example_quest_npc Unknown 0x0C2 5] [])
        ''quest.qst'' =
       Inr (QstBlob
         [(''quest.dat'', Some 1, Compressed (DatBlob \<lparr> dat_objs = [],
             dat_npcs = [\<lparr> dnpc_type_id = 0x0C2, dnpc_section_id = 1,
               dnpc_position = Vec3 0 0 0, dnpc_rotation = Vec3 0 0 0,
               dnpc_scale = Vec3 0x3F800000 0x3F000000 0x3F800000,
               dnpc_npc_id = 0, dnpc_script_label = 0, dnpc_roaming = 5, dnpc_area_id = 1,
               dnpc_unknown = [] \<rparr>], dat_unknowns = [] \<rparr>)),
          (''quest.bin'', Some 1, Compressed (BinBlob \<lparr> bin_quest_id = 1, bin_language = 0,
             bin_quest_name = ''q'', bin_short_description = [], bin_long_description = [],
             bin_object_code = [], bin_shop_items = [] \<rparr>))])"
  by (simp add: example_quest_npc_def example_quest_def npc_type_to_dat_data_def
        npcs_to_dat_data_def npc_to_dat_data_def write_quest_qst_def example_layers_def
        objects_to_dat_data_def js_lastIndexOf_def Let_def)

text \<open>
  C10. For the type Unknown \<^verbatim>\<open>npc_type_to_dat_data\<close> returns no mapping and does not
  raise; \<^verbatim>\<open>npcs_to_dat_data\<close> then writes the NPC with its preserved raw type code and
  roaming value and with the regular flag true (bit 23 of \<^verbatim>\<open>scale.y\<close> cleared).
\<close>

theorem unknown_npc_passes_through:
  "npc_type_to_dat_data Unknown = Inr None
   \<and> (qnpc_type npc = Unknown \<longrightarrow>
        npc_to_dat_data npc =
          Inr \<lparr> dnpc_type_id = qnpc_pso_type_id npc,
                dnpc_section_id = qnpc_section_id npc,
                dnpc_position = qnpc_position npc,
                dnpc_rotation = qnpc_rotation npc,
                dnpc_scale = Vec3 (vec_x (qnpc_scale npc))
                               (vec_y (qnpc_scale npc) AND NOT 0x800000)
                               (vec_z (qnpc_scale npc)),
                dnpc_npc_id = qnpc_npc_id npc,
                dnpc_script_label = of_int (qnpc_script_label npc),
                dnpc_roaming = qnpc_roaming npc,
                dnpc_area_id = qnpc_area_id npc,
                dnpc_unknown = qnpc_unknown npc \<rparr>)
   \<and> ((\<forall>n \<in> set npcs. qnpc_type n = Unknown) \<longrightarrow>
        (\<exists>ds. npcs_to_dat_data npcs = Inr ds
            \<and> map dnpc_type_id ds = map qnpc_pso_type_id npcs
            \<and> map dnpc_roaming ds = map qnpc_roaming npcs))"
proof -
  have u: "npc_type_to_dat_data Unknown = Inr None"
    by (simp add: npc_type_to_dat_data_def)
  have one: "npc_to_dat_data n =
          Inr \<lparr> dnpc_type_id = qnpc_pso_type_id n,
                dnpc_section_id = qnpc_section_id n,
                dnpc_position = qnpc_position n,
                dnpc_rotation = qnpc_rotation n,
                dnpc_scale = Vec3 (vec_x (qnpc_scale n))
                               (vec_y (qnpc_scale n) AND NOT 0x800000)
                               (vec_z (qnpc_scale n)),
                dnpc_npc_id = qnpc_npc_id n,
                dnpc_script_label = of_int (qnpc_script_label n),
                dnpc_roaming = qnpc_roaming n,
                dnpc_area_id = qnpc_area_id n,
                dnpc_unknown = qnpc_unknown n \<rparr>" if "qnpc_type n = Unknown" for n
    using that u by (simp add: npc_to_dat_data_def)
  have many: "\<exists>ds. map_result npc_to_dat_data ns = Inr ds
            \<and> map dnpc_type_id ds = map qnpc_pso_type_id ns
            \<and> map dnpc_roaming ds = map qnpc_roaming ns"
    if "\<forall>n \<in> set ns. qnpc_type n = Unknown" for ns
    using that by (induction ns) (auto simp: one)
  show ?thesis using u one many by (auto simp: npcs_to_dat_data_def)
qed

theorem unknown_npc_passes_through_witness:
  "qnpc_type (example_quest_npc Unknown 0x0C2 5) = Unknown
   \<and> (\<exists>ds. npcs_to_dat_data [example_quest_npc Unknown 0x0C2 5] = Inr ds
          \<and> map dnpc_type_id ds = map qnpc_pso_type_id [example_quest_npc Unknown 0x0C2 5]
          \<and> map dnpc_roaming ds = map qnpc_roaming [example_quest_npc Unknown 0x0C2 5])"
proof -
  have 1: "qnpc_type (example_quest_npc Unknown 0x0C2 5) = Unknown"
    by (simp add: example_quest_npc_def)
  have 2: "\<forall>n \<in> set [example_quest_npc Unknown 0x0C2 5]. qnpc_type n = Unknown"
    by (simp add: example_quest_npc_def)
  from unknown_npc_passes_through
         [of "example_quest_npc Unknown 0x0C2 5" "[example_quest_npc Unknown 0x0C2 5]"] 1 2
  show ?thesis by blast
qed

section \<open>The episode default\<close>

lemma lower_layers_yieldD:
  assumes "lower_layers_yield env cursor lenient dat bin"
  shows "\<exists>qst_files dat_file bin_file dat_decompressed bin_decompressed.
           parse_qst env cursor = Inr (Some qst_files)
         \<and> find_dat_bin qst_files = (Some dat_file, Some bin_file)
         \<and> prs_decompress env (qf_data dat_file) = Inr dat_decompressed
         \<and> parse_dat env dat_decompressed = Inr dat
         \<and> prs_decompress env (qf_data bin_file) = Inr bin_decompressed
         \<and> parse_bin env bin_decompressed
              (extract_script_entry_points (parse_obj_data env (dat_objs dat)) (dat_npcs dat))
              lenient = Inr bin"
  using assms unfolding lower_layers_yield_def
  apply (cases "parse_qst env cursor"; simp)
  subgoal for r
    apply (cases r; simp)
    subgoal for qst_files
      apply (cases "find_dat_bin qst_files"; simp)
      subgoal for d b
        apply (cases d; simp)
        apply (cases b; simp)
        subgoal for dat_file bin_file
          apply (cases "prs_decompress env (qf_data dat_file)"; simp)
          apply (cases "prs_decompress env (qf_data bin_file)"; simp)
          done
        done
      done
    done
  done

lemma parse_quest_yield:
  assumes "lower_layers_yield env cursor lenient dat bin"
  shows "parse_quest env cursor lenient =
     (case episode_and_map_designations dat (bin_object_code bin) of
        (l, Inl e) \<Rightarrow> (l, Inl e)
      | (l, Inr (episode, map_designations)) \<Rightarrow>
          (l, Inr (Some
             \<lparr> q_id = bin_quest_id bin,
               q_language = bin_language bin,
               q_name = bin_quest_name bin,
               q_short_description = bin_short_description bin,
               q_long_description = bin_long_description bin,
               q_episode = episode,
               q_objects = parse_obj_data env (dat_objs dat),
               q_npcs = parse_npc_data (episode_number episode) (dat_npcs dat),
               q_dat_unknowns = dat_unknowns dat,
               q_object_code = bin_object_code bin,
               q_shop_items = bin_shop_items bin,
               q_map_designations = map_designations \<rparr>)))"
proof -
  from lower_layers_yieldD [OF assms] obtain qst_files dat_file bin_file dat_decompressed
      bin_decompressed where
    "parse_qst env cursor = Inr (Some qst_files)"
    "find_dat_bin qst_files = (Some dat_file, Some bin_file)"
    "prs_decompress env (qf_data dat_file) = Inr dat_decompressed"
    "parse_dat env dat_decompressed = Inr dat"
    "prs_decompress env (qf_data bin_file) = Inr bin_decompressed"
    "parse_bin env bin_decompressed
       (extract_script_entry_points (parse_obj_data env (dat_objs dat)) (dat_npcs dat))
       lenient = Inr bin"
    by blast
  then show ?thesis
    by (simp add: parse_quest_def Let_def)
qed

lemma map_designations_loop_ok:
  "\<forall>i \<in> set insts. well_formed_instruction i \<Longrightarrow> \<exists>m'. map_designations_loop insts m = Inr m'"
  by (induction insts arbitrary: m) (auto simp: well_formed_instruction_def)

lemma get_episode_default:
  "\<forall>i \<in> set insts. ins_opcode i \<noteq> SET_EPISODE \<Longrightarrow>
   get_episode insts = ([(LogDebug, NoSetEpisode)], Inr Episode_I)"
proof -
  assume "\<forall>i \<in> set insts. ins_opcode i \<noteq> SET_EPISODE"
  then have "find (\<lambda>instruction. ins_opcode instruction = SET_EPISODE) insts = None"
    by (simp add: find_None_iff)
  then show ?thesis by (simp add: get_episode_def)
qed

lemma example_layers_yield: 
  "lower_layers_yield example_layers (example_archive (example_dat ns) (example_bin oc)) False
     (example_dat ns) (example_bin oc)"
  by (simp add: lower_layers_yield_def example_layers_def example_archive_def find_dat_bin_def
       js_trim_def js_toLowerCase_def js_lower_char_def js_whitespace_def js_endsWith_def Let_def)

text \<open>
  C4, as amended. Where the lower layers yield a decoded BIN file: if its object code has no
  instruction segment labelled 0, \<^verbatim>\<open>parse_quest\<close> succeeds with Episode I and one warning;
  if the segment labelled 0 (of well-formed instructions) has no \<^verbatim>\<open>SET_EPISODE\<close>
  instruction, \<^verbatim>\<open>parse_quest\<close> succeeds with Episode I and logs one message of level
  debug, no warning.
\<close>

theorem episode_defaults_to_I:
  assumes "lower_layers_yield env cursor lenient dat bin"
  shows "(bin_object_code bin = [] \<longrightarrow>
           (\<exists>q. parse_quest env cursor lenient = ([(LogWarn, NoInstructionLabels)], Inr (Some q))
               \<and> q_episode q = Episode_I))
       \<and> (bin_object_code bin \<noteq> [] \<and> find_label_0 (bin_object_code bin) = None \<longrightarrow>
           (\<exists>q. parse_quest env cursor lenient = ([(LogWarn, NoLabel0Instruction)], Inr (Some q))
               \<and> q_episode q = Episode_I))
       \<and> (\<forall>instructions.
             find_label_0 (bin_object_code bin) = Some instructions
             \<and> (\<forall>i \<in> set instructions. ins_opcode i \<noteq> SET_EPISODE)
             \<and> (\<forall>i \<in> set instructions. well_formed_instruction i) \<longrightarrow>
           (\<exists>q. parse_quest env cursor lenient = ([(LogDebug, NoSetEpisode)], Inr (Some q))
               \<and> q_episode q = Episode_I))"
proof (intro conjI impI allI)
  assume "bin_object_code bin = []"
  then show "\<exists>q. parse_quest env cursor lenient = ([(LogWarn, NoInstructionLabels)], Inr (Some q))
               \<and> q_episode q = Episode_I"
    by (simp add: parse_quest_yield [OF assms] episode_and_map_designations_def)
next
  assume "bin_object_code bin \<noteq> [] \<and> find_label_0 (bin_object_code bin) = None"
  then show "\<exists>q. parse_quest env cursor lenient = ([(LogWarn, NoLabel0Instruction)], Inr (Some q))
               \<and> q_episode q = Episode_I"
    by (simp add: parse_quest_yield [OF assms] episode_and_map_designations_def)
next
  fix instructions
  assume a: "find_label_0 (bin_object_code bin) = Some instructions
             \<and> (\<forall>i \<in> set instructions. ins_opcode i \<noteq> SET_EPISODE)
             \<and> (\<forall>i \<in> set instructions. well_formed_instruction i)"
  then have ne: "bin_object_code bin \<noteq> []" by auto
  from a obtain m where m: "map_designations_loop instructions [] = Inr m"
    using map_designations_loop_ok by blast
  from a have g: "get_episode instructions = ([(LogDebug, NoSetEpisode)], Inr Episode_I)"
    by (simp add: get_episode_default)
  show "\<exists>q. parse_quest env cursor lenient = ([(LogDebug, NoSetEpisode)], Inr (Some q))
               \<and> q_episode q = Episode_I"
    using a ne m g
    by (simp add: parse_quest_yield [OF assms] episode_and_map_designations_def
          extract_map_designations_def)
qed

theorem episode_defaults_to_I_witness:
  "(\<exists>q. parse_quest example_layers (example_archive (example_dat []) (example_bin [])) False
           = ([(LogWarn, NoInstructionLabels)], Inr (Some q)) \<and> q_episode q = Episode_I)
   \<and> (\<exists>q. parse_quest example_layers
            (example_archive (example_dat []) (example_bin [DataSegment []])) False
           = ([(LogWarn, NoLabel0Instruction)], Inr (Some q)) \<and> q_episode q = Episode_I)
   \<and> (\<exists>q. parse_quest example_layers
            (example_archive (example_dat []) (example_bin [InstructionSegment [] [0]])) False
           = ([(LogDebug, NoSetEpisode)], Inr (Some q)) \<and> q_episode q = Episode_I)"
proof -
  have 1: "bin_object_code (example_bin []) = []"
    by (simp add: example_bin_def)
  have 2: "bin_object_code (example_bin [DataSegment []]) \<noteq> []
           \<and> find_label_0 (bin_object_code (example_bin [DataSegment []])) = None"
    by (simp add: example_bin_def)
  have 3: "find_label_0 (bin_object_code (example_bin [InstructionSegment [] [0]])) = Some []
           \<and> (\<forall>i \<in> set []. ins_opcode i \<noteq> SET_EPISODE)
           \<and> (\<forall>i \<in> set []. well_formed_instruction i)"
    by (simp add: example_bin_def)
  from episode_defaults_to_I [OF example_layers_yield [of "[]" "[]"]] 1
  have a: "\<exists>q. parse_quest example_layers (example_archive (example_dat []) (example_bin []))
              False = ([(LogWarn, NoInstructionLabels)], Inr (Some q)) \<and> q_episode q = Episode_I"
    by blast
  from episode_defaults_to_I [OF example_layers_yield [of "[]" "[DataSegment []]"]] 2
  have b: "\<exists>q. parse_quest example_layers
              (example_archive (example_dat []) (example_bin [DataSegment []])) False
             = ([(LogWarn, NoLabel0Instruction)], Inr (Some q)) \<and> q_episode q = Episode_I"
    by blast
  from episode_defaults_to_I [OF example_layers_yield [of "[]" "[InstructionSegment [] [0]]"]] 3
  have c: "\<exists>q. parse_quest example_layers
              (example_archive (example_dat []) (example_bin [InstructionSegment [] [0]])) False
             = ([(LogDebug, NoSetEpisode)], Inr (Some q)) \<and> q_episode q = Episode_I"
    by blast
  from a b c show ?thesis by blast
qed

text \<open>
  The claim as stated fails in its second case: for a segment labelled 0 without
  \<^verbatim>\<open>SET_EPISODE\<close> the only message is the one of \<^verbatim>\<open>get_episode\<close>, logged with
  \<^verbatim>\<open>logger.debug\<close>; no warning is emitted.
\<close>

theorem no_set_episode_logs_debug_counterexample:
  "fst (parse_quest example_layers
     (example_archive (example_dat [])
        (example_bin [InstructionSegment [\<lparr> ins_opcode = OtherOpcode 1, ins_args = [] \<rparr>] [0]]))
     False) = [(LogDebug, NoSetEpisode)]"
  unfolding parse_quest_yield [OF example_layers_yield]
  by (simp add: episode_and_map_designations_def get_episode_def
       extract_map_designations_def example_bin_def)

section \<open>The QST container\<close>

subsection \<open>The cursor\<close>

text \<open>
  Modelled from the spec: the class \<^verbatim>\<open>BufferCursor\<close> is not part of these sources. It is
  a cursor over a growable byte buffer: the buffer holds \<^verbatim>\<open>size\<close> bytes, reads and
  writes start at \<^verbatim>\<open>position\<close> and advance it, integers are little-endian, and a write
  past the end grows the buffer. A seek outside \<open>[0, size]\<close> and a read past the end
  throw.
\<close>

record BufferCursor =
  bc_bytes :: "byte list"
  bc_position :: nat

definition bc_size :: "BufferCursor \<Rightarrow> nat" where
  "bc_size c = length (bc_bytes c)"

definition bytes_left :: "BufferCursor \<Rightarrow> nat" where
  "bytes_left c = bc_size c - bc_position c"

text \<open>\<^verbatim>\<open>new BufferCursor(capacity, true)\<close>: an empty buffer.\<close>

definition new_cursor :: BufferCursor where
  "new_cursor = \<lparr> bc_bytes = [], bc_position = 0 \<rparr>"

definition cursor_of :: "byte list \<Rightarrow> BufferCursor" where
  "cursor_of bs = \<lparr> bc_bytes = bs, bc_position = 0 \<rparr>"

fun and_then :: "error + 'a \<Rightarrow> ('a \<Rightarrow> error + 'b) \<Rightarrow> error + 'b" where
  "and_then (Inl e) f = Inl e"
| "and_then (Inr a) f = f a"

definition seek_start :: "BufferCursor \<Rightarrow> int \<Rightarrow> error + BufferCursor" where
  "seek_start c offset =
     (if offset < 0 \<or> int (bc_size c) < offset then Inl (OffsetOutOfBounds offset)
      else Inr (c\<lparr> bc_position := nat offset \<rparr>))"

definition seek :: "BufferCursor \<Rightarrow> int \<Rightarrow> error + BufferCursor" where
  "seek c offset = seek_start c (int (bc_position c) + offset)"

text \<open>The next \<open>n\<close> bytes, with the cursor behind them.\<close>

definition read_bytes :: "BufferCursor \<Rightarrow> nat \<Rightarrow> error + byte list \<times> BufferCursor" where
  "read_bytes c n =
     (if bc_position c + n \<le> bc_size c
      then Inr (take n (drop (bc_position c) (bc_bytes c)),
                c\<lparr> bc_position := bc_position c + n \<rparr>)
      else Inl (OffsetOutOfBounds (int (bc_position c + n))))"

text \<open>Little-endian numbers.\<close>

fun le_nat :: "byte list \<Rightarrow> nat" where
  "le_nat [] = 0"
| "le_nat (b # bs) = unat b + 256 * le_nat bs"

fun nat_le :: "nat \<Rightarrow> nat \<Rightarrow> byte list" where
  "nat_le 0 v = []"
| "nat_le (Suc k) v = of_nat v # nat_le k (v div 256)"

definition u8 :: "BufferCursor \<Rightarrow> error + nat \<times> BufferCursor" where
  "u8 c = and_then (read_bytes c 1) (\<lambda>(bs, c'). Inr (le_nat bs, c'))"

definition u16 :: "BufferCursor \<Rightarrow> error + nat \<times> BufferCursor" where
  "u16 c = and_then (read_bytes c 2) (\<lambda>(bs, c'). Inr (le_nat bs, c'))"

definition u32 :: "BufferCursor \<Rightarrow> error + nat \<times> BufferCursor" where
  "u32 c = and_then (read_bytes c 4) (\<lambda>(bs, c'). Inr (le_nat bs, c'))"

text \<open>A character is the byte of its code.\<close>

definition char_of_byte :: "byte \<Rightarrow> char" where
  "char_of_byte b = char_of (unat b)"

definition byte_of_char :: "char \<Rightarrow> byte" where
  "byte_of_char c = of_nat (of_char c)"

text \<open>
  \<^verbatim>\<open>string_ascii(max_byte_length, true, true)\<close>: the characters before the first zero
  byte among the next \<open>max_byte_length\<close> bytes; the cursor moves behind all of them.
\<close>

definition string_ascii :: "BufferCursor \<Rightarrow> nat \<Rightarrow> error + string \<times> BufferCursor" where
  "string_ascii c max_byte_length =
     and_then (read_bytes c max_byte_length)
       (\<lambda>(bs, c'). Inr (map char_of_byte (takeWhile (\<lambda>b. b \<noteq> 0) bs), c'))"

text \<open>\<^verbatim>\<open>take(size)\<close>: a cursor of its own over the next \<open>size\<close> bytes.\<close>

definition take_cursor :: "BufferCursor \<Rightarrow> nat \<Rightarrow> error + BufferCursor \<times> BufferCursor" where
  "take_cursor c n = and_then (read_bytes c n) (\<lambda>(bs, c'). Inr (cursor_of bs, c'))"

text \<open>The setter of \<^verbatim>\<open>size\<close>: a buffer that grows is filled with zero bytes.\<close>

definition set_size :: "BufferCursor \<Rightarrow> nat \<Rightarrow> BufferCursor" where
  "set_size c n = c\<lparr> bc_bytes := take n (bc_bytes c) @ replicate (n - bc_size c) 0 \<rparr>"

text \<open>Writing bytes at the position: they replace what is there and extend the buffer.\<close>

definition write_bytes :: "BufferCursor \<Rightarrow> byte list \<Rightarrow> BufferCursor" where
  "write_bytes c bs =
     \<lparr> bc_bytes = take (bc_position c) (bc_bytes c) @ bs
                   @ drop (bc_position c + length bs) (bc_bytes c),
       bc_position = bc_position c + length bs \<rparr>"

definition write_u8 :: "BufferCursor \<Rightarrow> nat \<Rightarrow> BufferCursor" where
  "write_u8 c v = write_bytes c (nat_le 1 v)"

definition write_u16 :: "BufferCursor \<Rightarrow> nat \<Rightarrow> BufferCursor" where
  "write_u16 c v = write_bytes c (nat_le 2 v)"

definition write_u32 :: "BufferCursor \<Rightarrow> nat \<Rightarrow> BufferCursor" where
  "write_u32 c v = write_bytes c (nat_le 4 v)"

definition write_u8_array :: "BufferCursor \<Rightarrow> nat list \<Rightarrow> BufferCursor" where
  "write_u8_array c vs = write_bytes c (map of_nat vs)"

text \<open>
  \<^verbatim>\<open>write_string_ascii(str, byte_length)\<close>: the characters of the string, cut or padded
  with zero bytes to \<open>byte_length\<close> bytes.
\<close>

definition ascii_field :: "string \<Rightarrow> nat \<Rightarrow> byte list" where
  "ascii_field str byte_length =
     map byte_of_char (take byte_length str) @ replicate (byte_length - length str) 0"

definition write_string_ascii :: "BufferCursor \<Rightarrow> string \<Rightarrow> nat \<Rightarrow> BufferCursor" where
  "write_string_ascii c str byte_length = write_bytes c (ascii_field str byte_length)"

text \<open>
  \<^verbatim>\<open>write_cursor(other)\<close>: the bytes that are left in \<open>other\<close>; both cursors advance.
\<close>

definition write_cursor :: "BufferCursor \<Rightarrow> BufferCursor \<Rightarrow> BufferCursor \<times> BufferCursor" where
  "write_cursor c other =
     (write_bytes c (drop (bc_position other) (bc_bytes other)),
      other\<lparr> bc_position := bc_size other \<rparr>)"

subsection \<open>Headers\<close>

record QstHeader =
  hdr_questNo :: nat
  hdr_fileName :: string
  hdr_fileName2 :: string
  hdr_size :: nat

text \<open>One round of the loop of \<^verbatim>\<open>parseHeaders\<close>.\<close>

definition parse_header :: "BufferCursor \<Rightarrow> error + QstHeader \<times> BufferCursor" where
  "parse_header cursor =
     and_then (seek cursor 4) (\<lambda>c.
     and_then (u16 c) (\<lambda>(questNo, c).
     and_then (seek c 38) (\<lambda>c.
     and_then (string_ascii c 16) (\<lambda>(fileName, c).
     and_then (u32 c) (\<lambda>(size, c).
     and_then (string_ascii c 24) (\<lambda>(fileName2, c).
       Inr (\<lparr> hdr_questNo = questNo, hdr_fileName = fileName,
               hdr_fileName2 = fileName2, hdr_size = size \<rparr>, c)))))))"

fun parseHeaders_loop ::
  "nat \<Rightarrow> BufferCursor \<Rightarrow> QstHeader list \<Rightarrow> error + QstHeader list \<times> BufferCursor" where
  "parseHeaders_loop 0 cursor headers = Inr (headers, cursor)"
| "parseHeaders_loop (Suc n) cursor headers =
     and_then (parse_header cursor)
       (\<lambda>(header, c). parseHeaders_loop n c (headers @ [header]))"

definition parseHeaders :: "BufferCursor \<Rightarrow> error + QstHeader list \<times> BufferCursor" where
  "parseHeaders cursor = parseHeaders_loop 2 cursor []"

subsection \<open>Contained files\<close>

record ContainedFile =
  cf_name :: string
  cf_name2 :: "string option"
  cf_questNo :: "nat option"
  cf_expectedSize :: "nat option"
  cf_data :: BufferCursor
  cf_chunkNos :: "nat list"

text \<open>
  The body of the loop of \<^verbatim>\<open>parseFiles\<close>: one chunk record of 1056 bytes. The file
  object is looked up or created, changed, and stored under its name; a new name is
  appended to the map, as in the source.
\<close>

definition parse_chunk ::
  "BufferCursor \<Rightarrow> (string, nat) js_map \<Rightarrow> (string, ContainedFile) js_map
   \<Rightarrow> error + log \<times> BufferCursor \<times> (string, ContainedFile) js_map" where
  "parse_chunk cursor expectedSizes files =
     (let startPosition = bc_position cursor in
      and_then (seek cursor 4) (\<lambda>c.
      and_then (u8 c) (\<lambda>(chunkNo, c).
      and_then (seek c 3) (\<lambda>c.
      and_then (string_ascii c 16) (\<lambda>(fileName, c).
      let file = (case js_map_get files fileName of
                    Some f \<Rightarrow> f
                  | None \<Rightarrow>
                      \<lparr> cf_name = fileName, cf_name2 = None, cf_questNo = None,
                        cf_expectedSize = js_map_get expectedSizes fileName,
                        cf_data = new_cursor, cf_chunkNos = [] \<rparr>);
          log1 = (if chunkNo \<in> set (cf_chunkNos file)
                  then [(LogWarn, ChunkAlreadyEncountered chunkNo fileName)] else []);
          file = (if chunkNo \<in> set (cf_chunkNos file) then file
                  else file\<lparr> cf_chunkNos := cf_chunkNos file @ [chunkNo] \<rparr>)
      in
      and_then (seek c 1024) (\<lambda>c.
      and_then (u32 c) (\<lambda>(size, c).
      and_then (seek c (- 1028)) (\<lambda>c.
      let log2 = (if 1024 < size then [(LogWarn, DataSegmentTooLarge size)] else []);
          size = (if 1024 < size then 1024 else size)
      in
      and_then (take_cursor c size) (\<lambda>(data, c).
      let chunkPosition = chunkNo * 1024;
          file_data = set_size (cf_data file)
                        (max (chunkPosition + size) (bc_size (cf_data file)))
      in
      and_then (seek_start file_data (int chunkPosition)) (\<lambda>file_data.
      let file = file\<lparr> cf_data := fst (write_cursor file_data data) \<rparr> in
      and_then (seek c (1032 - int (bc_size data))) (\<lambda>c.
        if bc_position c \<noteq> startPosition + 1056
        then Inl (ChunkLengthMismatch (bc_position c - startPosition))
        else Inr (log1 @ log2, c, js_map_set files fileName file))))))))))))"

text \<open>What the body of the loop does, in terms of the chunk record it reads.\<close>

definition chunk_no :: "byte list \<Rightarrow> nat" where
  "chunk_no record = le_nat (take 1 (drop 4 record))"

definition chunk_name :: "byte list \<Rightarrow> string" where
  "chunk_name record = map char_of_byte (takeWhile (\<lambda>b. b \<noteq> 0) (take 16 (drop 8 record)))"

definition chunk_declared_size :: "byte list \<Rightarrow> nat" where
  "chunk_declared_size record = le_nat (take 4 (drop 1048 record))"

definition chunk_data :: "byte list \<Rightarrow> byte list" where
  "chunk_data record = take (min 1024 (chunk_declared_size record)) (drop 24 record)"

definition file_of_name ::
  "(string, nat) js_map \<Rightarrow> (string, ContainedFile) js_map \<Rightarrow> string \<Rightarrow> ContainedFile" where
  "file_of_name expectedSizes files fileName =
     (case js_map_get files fileName of
        Some f \<Rightarrow> f
      | None \<Rightarrow>
          \<lparr> cf_name = fileName, cf_name2 = None, cf_questNo = None,
            cf_expectedSize = js_map_get expectedSizes fileName,
            cf_data = new_cursor, cf_chunkNos = [] \<rparr>)"

definition place :: "nat \<Rightarrow> byte list \<Rightarrow> byte list \<Rightarrow> byte list" where
  "place pos bs d =
     take pos (d @ replicate (pos + length bs - length d) 0) @ bs @ drop (pos + length bs) d"

definition file_after_chunk :: "ContainedFile \<Rightarrow> nat \<Rightarrow> byte list \<Rightarrow> ContainedFile" where
  "file_after_chunk file chunkNo data =
     file\<lparr> cf_chunkNos :=
             (if chunkNo \<in> set (cf_chunkNos file) then cf_chunkNos file
              else cf_chunkNos file @ [chunkNo]),
           cf_data :=
             \<lparr> bc_bytes = place (chunkNo * 1024) data (bc_bytes (cf_data file)),
               bc_position = chunkNo * 1024 + length data \<rparr> \<rparr>"

definition chunk_log :: "ContainedFile \<Rightarrow> byte list \<Rightarrow> log" where
  "chunk_log file record =
     (if chunk_no record \<in> set (cf_chunkNos file)
      then [(LogWarn, ChunkAlreadyEncountered (chunk_no record) (chunk_name record))] else [])
     @ (if 1024 < chunk_declared_size record
        then [(LogWarn, DataSegmentTooLarge (chunk_declared_size record))] else [])"

definition store_chunk ::
  "(string, nat) js_map \<Rightarrow> (string, ContainedFile) js_map \<Rightarrow> byte list
   \<Rightarrow> (string, ContainedFile) js_map" where
  "store_chunk expectedSizes files record =
     js_map_set files (chunk_name record)
       (file_after_chunk (file_of_name expectedSizes files (chunk_name record))
          (chunk_no record) (chunk_data record))"

lemma slice_of_slice:
  "off + len \<le> n \<Longrightarrow> take len (drop off (take n (drop p bs))) = take len (drop (p + off) bs)"
  by (simp add: drop_take min_def add.commute)

lemma seek_forward:
  "p + k \<le> length bs \<Longrightarrow>
   seek \<lparr> bc_bytes = bs, bc_position = p \<rparr> (int k) = Inr \<lparr> bc_bytes = bs, bc_position = p + k \<rparr>"
  by (simp add: seek_def seek_start_def bc_size_def)

lemma seek_backward:
  "k \<le> p \<Longrightarrow> p \<le> length bs \<Longrightarrow>
   seek \<lparr> bc_bytes = bs, bc_position = p \<rparr> (- int k) = Inr \<lparr> bc_bytes = bs, bc_position = p - k \<rparr>"
  by (simp add: seek_def seek_start_def bc_size_def nat_diff_distrib')

lemma read_bytes_at:
  "p + n \<le> length bs \<Longrightarrow>
   read_bytes \<lparr> bc_bytes = bs, bc_position = p \<rparr> n =
     Inr (take n (drop p bs), \<lparr> bc_bytes = bs, bc_position = p + n \<rparr>)"
  by (simp add: read_bytes_def bc_size_def)

lemma u8_at:
  "p + 1 \<le> length bs \<Longrightarrow>
   u8 \<lparr> bc_bytes = bs, bc_position = p \<rparr> =
     Inr (le_nat (take 1 (drop p bs)), \<lparr> bc_bytes = bs, bc_position = p + 1 \<rparr>)"
  by (simp add: u8_def read_bytes_at)

lemma u16_at:
  "p + 2 \<le> length bs \<Longrightarrow>
   u16 \<lparr> bc_bytes = bs, bc_position = p \<rparr> =
     Inr (le_nat (take 2 (drop p bs)), \<lparr> bc_bytes = bs, bc_position = p + 2 \<rparr>)"
  by (simp add: u16_def read_bytes_at)

lemma u32_at:
  "p + 4 \<le> length bs \<Longrightarrow>
   u32 \<lparr> bc_bytes = bs, bc_position = p \<rparr> =
     Inr (le_nat (take 4 (drop p bs)), \<lparr> bc_bytes = bs, bc_position = p + 4 \<rparr>)"
  by (simp add: u32_def read_bytes_at)

lemma string_ascii_at:
  "p + n \<le> length bs \<Longrightarrow>
   string_ascii \<lparr> bc_bytes = bs, bc_position = p \<rparr> n =
     Inr (map char_of_byte (takeWhile (\<lambda>b. b \<noteq> 0) (take n (drop p bs))),
          \<lparr> bc_bytes = bs, bc_position = p + n \<rparr>)"
  by (simp add: string_ascii_def read_bytes_at)

lemma take_cursor_at:
  "p + n \<le> length bs \<Longrightarrow>
   take_cursor \<lparr> bc_bytes = bs, bc_position = p \<rparr> n =
     Inr (cursor_of (take n (drop p bs)), \<lparr> bc_bytes = bs, bc_position = p + n \<rparr>)"
  by (simp add: take_cursor_def read_bytes_at)

lemma seek_start_grown:
  "seek_start (set_size fd (max (pos + n) (bc_size fd))) (int pos) =
     Inr ((set_size fd (max (pos + n) (bc_size fd)))\<lparr> bc_position := pos \<rparr>)"
  by (simp add: seek_start_def set_size_def bc_size_def)

lemma seek_start_grown_chunk:
  "seek_start (set_size fd (max (no * 1024 + n) (bc_size fd))) (int no * 1024) =
     Inr ((set_size fd (max (no * 1024 + n) (bc_size fd)))\<lparr> bc_position := no * 1024 \<rparr>)"
  using seek_start_grown [of fd "no * 1024" n] by simp

lemma write_cursor_grown:
  "length bs = n \<Longrightarrow>
   fst (write_cursor ((set_size fd (max (pos + n) (bc_size fd)))\<lparr> bc_position := pos \<rparr>)
          (cursor_of bs))
   = \<lparr> bc_bytes = place pos bs (bc_bytes fd), bc_position = pos + n \<rparr>"
  by (auto simp: write_cursor_def write_bytes_def set_size_def cursor_of_def place_def
        bc_size_def max_def)

lemma parse_chunk_eq:
  assumes "bc_position c + 1056 \<le> bc_size c"
  shows "parse_chunk c es files =
     Inr (chunk_log (file_of_name es files (chunk_name (take 1056 (drop (bc_position c) (bc_bytes c)))))
            (take 1056 (drop (bc_position c) (bc_bytes c))),
          c\<lparr> bc_position := bc_position c + 1056 \<rparr>,
          store_chunk es files (take 1056 (drop (bc_position c) (bc_bytes c))))"
proof -
  define p where "p = bc_position c"
  define bs where "bs = bc_bytes c"
  have len: "p + 1056 \<le> length bs"
    using assms by (simp add: p_def bs_def bc_size_def)
  have c: "c = \<lparr> bc_bytes = bs, bc_position = p \<rparr>"
    by (simp add: p_def bs_def)
  define rec where "rec = take 1056 (drop p bs)"
  define no where "no = chunk_no rec"
  define name where "name = chunk_name rec"
  define sz where "sz = chunk_declared_size rec"
  define data where "data = chunk_data rec"
  define fl where "fl = file_of_name es files name"
  have size: "min 1024 sz \<le> 1024" by simp
  have fields:
    "le_nat (take 1 (drop (p + 4) bs)) = no"
    "map char_of_byte (takeWhile (\<lambda>b. b \<noteq> 0) (take 16 (drop (p + 8) bs))) = name"
    "le_nat (take 4 (drop (p + 1048) bs)) = sz"
    "take (min 1024 sz) (drop (p + 24) bs) = data"
    unfolding no_def name_def sz_def data_def rec_def
    by (simp_all add: chunk_no_def chunk_name_def chunk_declared_size_def chunk_data_def
          slice_of_slice)
  have dlen: "length data = min 1024 sz"
    using len unfolding fields(4) [symmetric] by simp
  have s1: "seek \<lparr> bc_bytes = bs, bc_position = p \<rparr> 4 = Inr \<lparr> bc_bytes = bs, bc_position = p + 4 \<rparr>"
    using seek_forward [of p 4 bs] len by simp
  have s2: "u8 \<lparr> bc_bytes = bs, bc_position = p + 4 \<rparr> = Inr (no, \<lparr> bc_bytes = bs, bc_position = p + 5 \<rparr>)"
    using u8_at [of "p + 4" bs] len fields(1) by simp
  have s3: "seek \<lparr> bc_bytes = bs, bc_position = p + 5 \<rparr> 3 = Inr \<lparr> bc_bytes = bs, bc_position = p + 8 \<rparr>"
    using seek_forward [of "p + 5" 3 bs] len by simp
  have s4: "string_ascii \<lparr> bc_bytes = bs, bc_position = p + 8 \<rparr> 16 = Inr (name, \<lparr> bc_bytes = bs, bc_position = p + 24 \<rparr>)"
    using string_ascii_at [of "p + 8" 16 bs] len by (simp add: fields)
  have s5: "seek \<lparr> bc_bytes = bs, bc_position = p + 24 \<rparr> 1024 = Inr \<lparr> bc_bytes = bs, bc_position = p + 1048 \<rparr>"
    using seek_forward [of "p + 24" 1024 bs] len by simp
  have s6: "u32 \<lparr> bc_bytes = bs, bc_position = p + 1048 \<rparr> = Inr (sz, \<lparr> bc_bytes = bs, bc_position = p + 1052 \<rparr>)"
    using u32_at [of "p + 1048" bs] len by (simp add: fields)
  have s7: "seek \<lparr> bc_bytes = bs, bc_position = p + 1052 \<rparr> (- 1028) = Inr \<lparr> bc_bytes = bs, bc_position = p + 24 \<rparr>"
    using seek_backward [of 1028 "p + 1052" bs] len by simp
  have s8: "take_cursor \<lparr> bc_bytes = bs, bc_position = p + 24 \<rparr> (min 1024 sz) =
              Inr (cursor_of data, \<lparr> bc_bytes = bs, bc_position = p + 24 + min 1024 sz \<rparr>)"
    using take_cursor_at [of "p + 24" "min 1024 sz" bs] len by (simp add: fields)
  have s9: "seek \<lparr> bc_bytes = bs, bc_position = p + 24 + min 1024 sz \<rparr> (1032 - int (bc_size (cursor_of data)))
              = Inr \<lparr> bc_bytes = bs, bc_position = p + 1056 \<rparr>"
    using seek_forward [of "p + 24 + min 1024 sz" "1032 - min 1024 sz" bs] len
    by (simp add: bc_size_def cursor_of_def dlen of_nat_diff)
  have clamp: "(if 1024 < sz then 1024 else sz) = min 1024 sz"
    by simp
  have fd: "cf_data (if b then f else f\<lparr> cf_chunkNos := x \<rparr>) = cf_data f" for b f x
    by simp
  show ?thesis
    unfolding c parse_chunk_def Let_def
    apply (simp only: BufferCursor.simps s1 and_then.simps prod.case s2 s3 s4 s5 s6 s7 clamp s8 s9)
    apply (fold fl_def [unfolded file_of_name_def])
    apply (simp add: seek_start_grown_chunk write_cursor_grown dlen chunk_log_def store_chunk_def
             file_after_chunk_def
             flip: rec_def no_def name_def sz_def data_def fl_def)
    done
qed

lemma parse_chunk_advances:
  assumes "1056 \<le> bytes_left cursor"
    and "parse_chunk cursor expectedSizes files = Inr (l, cursor', files')"
  shows "bytes_left cursor' < bytes_left cursor"
proof -
  from assms(1) have "bc_position cursor + 1056 \<le> bc_size cursor"
    by (simp add: bytes_left_def)
  from parse_chunk_eq [OF this, of expectedSizes files] assms
  show ?thesis by (auto simp: bytes_left_def bc_size_def)
qed

function parseFiles_loop ::
  "BufferCursor \<Rightarrow> (string, nat) js_map \<Rightarrow> (string, ContainedFile) js_map \<Rightarrow> log
   \<Rightarrow> error + log \<times> BufferCursor \<times> (string, ContainedFile) js_map" where
  "parseFiles_loop cursor expectedSizes files lg =
     (if 1056 \<le> bytes_left cursor then
        (case parse_chunk cursor expectedSizes files of
           Inl e \<Rightarrow> Inl e
         | Inr (l, cursor', files') \<Rightarrow> parseFiles_loop cursor' expectedSizes files' (lg @ l))
      else Inr (lg, cursor, files))"
  by pat_completeness auto
termination
  by (relation "measure (\<lambda>(cursor, expectedSizes, files, lg). bytes_left cursor)")
     (auto dest: parse_chunk_advances)

declare parseFiles_loop.simps [simp del]

text \<open>
  The clean-up of one file after the loop: the data cursor is rewound, the chunk numbers
  are sorted, and the size and the chunk numbers are checked.
\<close>

definition finish_file :: "ContainedFile \<Rightarrow> log \<times> ContainedFile" where
  "finish_file file0 =
     (let file = file0\<lparr> cf_data := (cf_data file0)\<lparr> bc_position := 0 \<rparr>,
                       cf_chunkNos := sort (cf_chunkNos file0) \<rparr>;
          log1 = (case cf_expectedSize file of
                    Some expectedSize \<Rightarrow>
                      if bc_size (cf_data file) \<noteq> expectedSize
                      then [(LogWarn, ActualSizeDiffers (cf_name file) (bc_size (cf_data file))
                                        expectedSize)]
                      else []
                  | None \<Rightarrow> []);
          actualSize = max (bc_size (cf_data file))
                         (case cf_expectedSize file of Some expectedSize \<Rightarrow> expectedSize
                          | None \<Rightarrow> 0);
          log2 = map (\<lambda>chunkNo. (LogWarn, MissingChunk (cf_name file) chunkNo))
                   (filter (\<lambda>chunkNo. chunkNo \<notin> set (cf_chunkNos file))
                      [0 ..< (actualSize + 1023) div 1024])
      in (log1 @ log2, file))"

definition parseFiles ::
  "BufferCursor \<Rightarrow> (string, nat) js_map \<Rightarrow> error + log \<times> ContainedFile list" where
  "parseFiles cursor expectedSizes =
     and_then (parseFiles_loop cursor expectedSizes [] [])
       (\<lambda>(lg, cursor', files).
          let log_left = (if bytes_left cursor' \<noteq> 0
                          then [(LogWarn, BytesLeftInFile (bytes_left cursor'))] else []);
              finished = map finish_file (js_map_values files)
          in Inr (lg @ log_left @ concat (map fst finished), map snd finished))"

record ParseQstResult =
  pq_version :: string
  pq_files :: "ContainedFile list"

definition parseQst :: "BufferCursor \<Rightarrow> error + log \<times> ParseQstResult option" where
  "parseQst cursor =
     and_then (u8 cursor) (\<lambda>(versionA, c).
     and_then (seek c 1) (\<lambda>c.
     and_then (u8 c) (\<lambda>(versionB, c).
     let version =
           (if versionA = 0x44 then ''Dreamcast/GameCube''
            else if versionA = 0x58 then (if versionB = 0x44 then ''Blue Burst'' else ''PC'')
            else if versionA = 0xA6 then ''Dreamcast download''
            else ''PC'')
     in if version = ''Blue Burst'' then
          and_then (seek_start c 0) (\<lambda>c.
          and_then (parseHeaders c) (\<lambda>(headers, c).
          and_then (parseFiles c
                      (js_map_of_entries (map (\<lambda>h. (hdr_fileName h, hdr_size h)) headers)))
            (\<lambda>(lg, files).
               Inr (lg, Some \<lparr> pq_version = version,
                      pq_files = map (\<lambda>file.
                        case find (\<lambda>h. hdr_fileName h = cf_name file) headers of
                          Some header \<Rightarrow>
                            file\<lparr> cf_questNo := Some (hdr_questNo header),
                                  cf_name2 := Some (hdr_fileName2 header) \<rparr>
                        | None \<Rightarrow> file) files \<rparr>))))
        else Inr ([(LogError, CantParseQst version)], None))))"

text \<open>The loop never throws: it consumes the chunk records one after the other.\<close>

lemma parseFiles_loop_total:
  "\<exists>lg' cursor' files'. parseFiles_loop cursor expectedSizes files lg = Inr (lg', cursor', files')"
proof (induction cursor expectedSizes files lg rule: parseFiles_loop.induct)
  case (1 cursor expectedSizes files lg)
  show ?case
  proof (cases "1056 \<le> bytes_left cursor")
    case True
    then have "bc_position cursor + 1056 \<le> bc_size cursor"
      by (simp add: bytes_left_def)
    from parse_chunk_eq [OF this, of expectedSizes files] True "1.IH"
    show ?thesis by (subst parseFiles_loop.simps) auto
  next
    case False
    then show ?thesis by (subst parseFiles_loop.simps) simp
  qed
qed

text \<open>A chunk record as \<^verbatim>\<open>writeFileChunk\<close> lays it out.\<close>

definition chunk_record :: "nat \<Rightarrow> string \<Rightarrow> byte list \<Rightarrow> byte list" where
  "chunk_record chunkNo name data =
     map of_nat [28, 4, 19, 0] @ nat_le 1 chunkNo @ map of_nat [0, 0, 0] @ ascii_field name 16
     @ data @ replicate (1024 - length data) 0 @ nat_le 4 (length data) @ nat_le 4 0"

fun records_log ::
  "(string, nat) js_map \<Rightarrow> (string, ContainedFile) js_map \<Rightarrow> byte list list \<Rightarrow> log" where
  "records_log es files [] = []"
| "records_log es files (r # rs) =
     chunk_log (file_of_name es files (chunk_name r)) r
     @ records_log es (store_chunk es files r) rs"

lemma length_nat_le [simp]: "length (nat_le k v) = k"
  by (induction k arbitrary: v) simp_all

lemma le_nat_nat_le: "le_nat (nat_le k v) = v mod 256 ^ k"
proof (induction k arbitrary: v)
  case 0
  then show ?case by simp
next
  case (Suc k)
  have "unat (of_nat v :: byte) = v mod 256"
    by (simp add: unat_of_nat)
  then show ?case
    using Suc [of "v div 256"] by (simp add: mod_mult2_eq)
qed

lemma length_ascii_field [simp]: "length (ascii_field str n) = n"
  by (simp add: ascii_field_def)

lemma char_of_byte_of_char [simp]: "char_of_byte (byte_of_char c) = c"
proof -
  have "(of_char c :: nat) < 256" by simp
  then have "unat (of_nat (of_char c) :: byte) = of_char c"
    by (simp add: unat_of_nat)
  then show ?thesis by (simp add: char_of_byte_def byte_of_char_def)
qed

lemma byte_of_char_eq_0: "byte_of_char c = 0 \<longleftrightarrow> c = CHR 0x00"
proof
  assume "byte_of_char c = 0"
  then have "char_of_byte (byte_of_char c) = char_of_byte 0" by simp
  moreover have "char_of_byte 0 = CHR 0x00" by (simp add: char_of_byte_def char_of_eq_iff)
  ultimately show "c = CHR 0x00" by simp
next
  assume "c = CHR 0x00"
  then show "byte_of_char c = 0" by (simp add: byte_of_char_def)
qed

lemma ascii_field_decode:
  assumes "length str \<le> n" and "CHR 0x00 \<notin> set str"
  shows "map char_of_byte (takeWhile (\<lambda>b. b \<noteq> 0) (ascii_field str n)) = str"
proof -
  have nz: "\<forall>b \<in> set (map byte_of_char str). b \<noteq> 0"
    using assms(2) by (auto simp: byte_of_char_eq_0)
  have "takeWhile (\<lambda>b. b \<noteq> 0) (map byte_of_char str @ replicate (n - length str) 0)
          = map byte_of_char str"
    using nz by (cases "n - length str") (simp_all add: takeWhile_append2 takeWhile_tail)
  then show ?thesis
    using assms(1) by (simp add: ascii_field_def comp_def)
qed

lemma chunk_record_fields:
  assumes "length data \<le> 1024"
  shows "length (chunk_record chunkNo name data) = 1056"
    and "chunk_no (chunk_record chunkNo name data) = chunkNo mod 256"
    and "chunk_declared_size (chunk_record chunkNo name data) = length data"
    and "chunk_data (chunk_record chunkNo name data) = data"
    and "length name \<le> 16 \<Longrightarrow> CHR 0x00 \<notin> set name \<Longrightarrow>
         chunk_name (chunk_record chunkNo name data) = name"
proof -
  show "length (chunk_record chunkNo name data) = 1056"
    using assms by (simp add: chunk_record_def)
  show "chunk_no (chunk_record chunkNo name data) = chunkNo mod 256"
    using le_nat_nat_le [of 1 chunkNo] by (simp add: chunk_record_def chunk_no_def)
  have "take 4 (drop 1048 (chunk_record chunkNo name data)) = nat_le 4 (length data)"
    using assms by (simp add: chunk_record_def)
  then show sz: "chunk_declared_size (chunk_record chunkNo name data) = length data"
    using assms le_nat_nat_le [of 4 "length data"] by (simp add: chunk_declared_size_def)
  show "chunk_data (chunk_record chunkNo name data) = data"
    using assms by (simp add: chunk_data_def sz) (simp add: chunk_record_def)
  have "take 16 (drop 8 (chunk_record chunkNo name data)) = ascii_field name 16"
    by (simp add: chunk_record_def)
  then show "length name \<le> 16 \<Longrightarrow> CHR 0x00 \<notin> set name \<Longrightarrow>
         chunk_name (chunk_record chunkNo name data) = name"
    by (simp add: chunk_name_def ascii_field_decode)
qed

lemma parseFiles_loop_records:
  assumes "\<forall>r \<in> set rs. length r = 1056" and "length rest < 1056"
  shows "parseFiles_loop \<lparr> bc_bytes = pre @ concat rs @ rest, bc_position = length pre \<rparr> es files lg
       = Inr (lg @ records_log es files rs,
              \<lparr> bc_bytes = pre @ concat rs @ rest, bc_position = length pre + 1056 * length rs \<rparr>,
              foldl (store_chunk es) files rs)"
  using assms(1)
proof (induction rs arbitrary: pre files lg)
  case Nil
  then show ?case
    using assms(2) by (subst parseFiles_loop.simps) (simp add: bytes_left_def bc_size_def)
next
  case (Cons r rs)
  let ?c = "\<lparr> bc_bytes = pre @ concat (r # rs) @ rest, bc_position = length pre \<rparr>"
  from Cons.prems have r: "length r = 1056" and rs: "\<forall>r \<in> set rs. length r = 1056"
    by simp_all
  have left: "1056 \<le> bytes_left ?c"
    using r by (simp add: bytes_left_def bc_size_def)
  then have pos: "bc_position ?c + 1056 \<le> bc_size ?c"
    by (simp add: bytes_left_def)
  have rec: "take 1056 (drop (bc_position ?c) (bc_bytes ?c)) = r"
    using r by simp
  have step: "parse_chunk ?c es files =
      Inr (chunk_log (file_of_name es files (chunk_name r)) r,
           \<lparr> bc_bytes = (pre @ r) @ concat rs @ rest, bc_position = length (pre @ r) \<rparr>,
           store_chunk es files r)"
    using parse_chunk_eq [OF pos, of es files] r unfolding rec by simp
  show ?case
    apply (subst parseFiles_loop.simps)
    apply (simp only: left if_True step sum.case prod.case)
    apply (subst Cons.IH [OF rs])
    using r apply simp
    done
qed

definition required_chunks :: "ContainedFile \<Rightarrow> nat" where
  "required_chunks file =
     (max (bc_size (cf_data file))
          (case cf_expectedSize file of Some expectedSize \<Rightarrow> expectedSize | None \<Rightarrow> 0)
      + 1023) div 1024"

definition example_chunk :: "nat \<Rightarrow> byte list" where
  "example_chunk k = chunk_record k ''quest.bin'' (replicate 1024 (of_nat k))"

definition example_stream :: "byte list" where
  "example_stream = concat (map example_chunk [0, 1, 3, 4])"

lemma length_concat_records:
  "\<forall>r \<in> set rs. length r = n \<Longrightarrow> length (concat rs) = n * length rs"
  by (induction rs) simp_all

lemma parseFiles_records:
  assumes "\<forall>r \<in> set rs. length r = 1056"
  shows "parseFiles (cursor_of (concat rs)) es =
     Inr (records_log es [] rs
            @ concat (map fst (map finish_file (js_map_values (foldl (store_chunk es) [] rs)))),
          map snd (map finish_file (js_map_values (foldl (store_chunk es) [] rs))))"
  using parseFiles_loop_records [OF assms, of "[]" "[]" es "[]" "[]"]
  by (simp add: parseFiles_def cursor_of_def bytes_left_def bc_size_def Let_def
        length_concat_records [OF assms] del: length_concat)

lemma finish_file_fields:
  "cf_name (snd (finish_file f)) = cf_name f"
  "cf_expectedSize (snd (finish_file f)) = cf_expectedSize f"
  "set (cf_chunkNos (snd (finish_file f))) = set (cf_chunkNos f)"
  "bc_size (cf_data (snd (finish_file f))) = bc_size (cf_data f)"
  by (simp_all add: finish_file_def Let_def bc_size_def)

lemma finish_file_log:
  "chunkNo < required_chunks f \<Longrightarrow> chunkNo \<notin> set (cf_chunkNos f) \<Longrightarrow>
   (LogWarn, MissingChunk (cf_name f) chunkNo) \<in> set (fst (finish_file f))"
  by (auto simp: finish_file_def Let_def required_chunks_def bc_size_def)

text \<open>
  C7. \<^verbatim>\<open>parseFiles\<close> returns for every stream, and for every file it returns and every
  chunk number below \<open>ceil(max(assembled size, expected size) / 1024)\<close> that is not among
  the chunk numbers seen for the file, its log has a warning with the name of the file and
  that number.
\<close>

theorem missing_chunks_are_reported:
  "\<exists>lg files. parseFiles cursor expectedSizes = Inr (lg, files)
     \<and> (\<forall>file \<in> set files. \<forall>chunkNo.
           chunkNo < required_chunks file \<and> chunkNo \<notin> set (cf_chunkNos file) \<longrightarrow>
           (LogWarn, MissingChunk (cf_name file) chunkNo) \<in> set lg)"
proof -
  obtain lg0 cursor' files0 where
    loop: "parseFiles_loop cursor expectedSizes [] [] = Inr (lg0, cursor', files0)"
    using parseFiles_loop_total by blast
  define finished where "finished = map finish_file (js_map_values files0)"
  define log_left where "log_left =
    (if bytes_left cursor' \<noteq> 0 then [(LogWarn, BytesLeftInFile (bytes_left cursor'))] else [])"
  have res: "parseFiles cursor expectedSizes =
      Inr (lg0 @ log_left @ concat (map fst finished), map snd finished)"
    by (simp add: parseFiles_def loop Let_def finished_def log_left_def)
  have "(LogWarn, MissingChunk (cf_name g) chunkNo)
          \<in> set (lg0 @ log_left @ concat (map fst finished))"
    if mem: "g \<in> set (map snd finished)"
      and lt: "chunkNo < required_chunks g"
      and no: "chunkNo \<notin> set (cf_chunkNos g)" for g chunkNo
  proof -
    from mem obtain f where f: "f \<in> set (js_map_values files0)" and
      g_eq: "g = snd (finish_file f)"
      by (auto simp: finished_def)
    have "required_chunks g = required_chunks f"
      by (simp add: required_chunks_def g_eq finish_file_fields)
    with lt no have "(LogWarn, MissingChunk (cf_name f) chunkNo) \<in> set (fst (finish_file f))"
      by (intro finish_file_log) (simp_all add: g_eq finish_file_fields)
    moreover have "fst (finish_file f) \<in> set (map fst finished)"
      using f by (simp add: finished_def)
    ultimately have "(LogWarn, MissingChunk (cf_name f) chunkNo)
                       \<in> set (concat (map fst finished))"
      unfolding set_concat by blast
    then show ?thesis
      by (simp add: g_eq finish_file_fields)
  qed
  with res show ?thesis by blast
qed

lemma example_result:
  "\<exists>lg d. parseFiles (cursor_of example_stream) [(''quest.bin'', 5120)] =
     Inr (lg, [\<lparr> cf_name = ''quest.bin'', cf_name2 = None, cf_questNo = None,
                 cf_expectedSize = Some 5120, cf_data = d, cf_chunkNos = [0, 1, 3, 4] \<rparr>])"
proof -
  have len: "\<forall>r \<in> set (map example_chunk [0, 1, 3, 4]). length r = 1056"
    by (simp add: example_chunk_def chunk_record_fields)
  show ?thesis
    unfolding example_stream_def parseFiles_records [OF len]
    by (simp add: example_chunk_def store_chunk_def chunk_record_fields file_of_name_def
          js_map_get_def js_map_values_def file_after_chunk_def finish_file_def Let_def)
qed

theorem missing_chunks_are_reported_witness:
  "\<exists>lg files. parseFiles (cursor_of example_stream) [(''quest.bin'', 5120)] = Inr (lg, files)
     \<and> (LogWarn, MissingChunk ''quest.bin'' 2) \<in> set lg"
proof -
  from missing_chunks_are_reported [of "cursor_of example_stream" "[(''quest.bin'', 5120)]"]
  obtain lg files where
    res: "parseFiles (cursor_of example_stream) [(''quest.bin'', 5120)] = Inr (lg, files)" and
    all: "\<forall>file \<in> set files. \<forall>chunkNo.
           chunkNo < required_chunks file \<and> chunkNo \<notin> set (cf_chunkNos file) \<longrightarrow>
           (LogWarn, MissingChunk (cf_name file) chunkNo) \<in> set lg"
    by blast
  from example_result res obtain d where
    files: "files = [\<lparr> cf_name = ''quest.bin'', cf_name2 = None, cf_questNo = None,
                 cf_expectedSize = Some 5120, cf_data = d, cf_chunkNos = [0, 1, 3, 4] \<rparr>]"
    by auto
  have "(2::nat) < required_chunks \<lparr> cf_name = ''quest.bin'', cf_name2 = None, cf_questNo = None,
                 cf_expectedSize = Some 5120, cf_data = d, cf_chunkNos = [0, 1, 3, 4] \<rparr>"
    by (simp add: required_chunks_def)
  with all files have "(LogWarn, MissingChunk ''quest.bin'' 2) \<in> set lg"
    by fastforce
  with res show ?thesis by blast
qed

subsection \<open>Writing\<close>

record SimpleQstContainedFile =
  sf_name :: string
  sf_name2 :: "string option"
  sf_questNo :: "nat option"
  sf_data :: BufferCursor

fun writeFileHeaders ::
  "BufferCursor \<Rightarrow> SimpleQstContainedFile list \<Rightarrow> error + BufferCursor" where
  "writeFileHeaders cursor [] = Inr cursor"
| "writeFileHeaders cursor (file # files) =
     (if 16 < length (sf_name file) then Inl (NameTooLong (sf_name file))
      else
        let c = write_u16 cursor 88;
            c = write_u16 c 0x44;
            c = write_u16 c (case sf_questNo file of Some questNo \<Rightarrow> questNo | None \<Rightarrow> 0);
            c = ((\<lambda>c. write_u8 c 0) ^^ 38) c;
            c = write_string_ascii c (sf_name file) 16;
            c = write_u32 c (bc_size (sf_data file));
            fileName2 =
              (case sf_name2 file of
                 None \<Rightarrow>
                   (case js_lastIndexOf (sf_name file) CHR ''.'' of
                      None \<Rightarrow> sf_name file @ ''_j''
                    | Some dotPos \<Rightarrow>
                        take dotPos (sf_name file) @ ''_j'' @ drop dotPos (sf_name file))
               | Some name2 \<Rightarrow> name2)
        in if 24 < length fileName2 then Inl (Name2TooLong (sf_name file) fileName2)
           else writeFileHeaders (write_string_ascii c fileName2 24) files)"

text \<open>
  \<^verbatim>\<open>writeFileChunk\<close> returns whether bytes are left in \<open>data\<close>, with the two cursors as
  it leaves them.
\<close>

definition writeFileChunk ::
  "BufferCursor \<Rightarrow> BufferCursor \<Rightarrow> nat \<Rightarrow> string
   \<Rightarrow> error + bool \<times> BufferCursor \<times> BufferCursor" where
  "writeFileChunk cursor data chunkNo name =
     (let c = write_u8_array cursor [28, 4, 19, 0];
          c = write_u8 c chunkNo;
          c = write_u8_array c [0, 0, 0];
          c = write_string_ascii c name 16;
          size = min 1024 (bytes_left data)
      in and_then (take_cursor data size) (\<lambda>(chunk, data').
         let c = fst (write_cursor c chunk);
             c = ((\<lambda>c. write_u8 c 0) ^^ (1024 - size)) c;
             c = write_u32 c size;
             c = write_u32 c 0
         in Inr (bytes_left data' \<noteq> 0, c, data')))"

text \<open>A cursor at the end of its buffer: every write appends.\<close>

definition end_cursor :: "byte list \<Rightarrow> BufferCursor" where
  "end_cursor bs = \<lparr> bc_bytes = bs, bc_position = length bs \<rparr>"

lemma write_bytes_end [simp]: "write_bytes (end_cursor bs) xs = end_cursor (bs @ xs)"
  by (simp add: write_bytes_def end_cursor_def)

lemma write_zero_bytes_end [simp]:
  "((\<lambda>c. write_bytes c [0]) ^^ n) (end_cursor bs) = end_cursor (bs @ replicate n 0)"
proof (induction n)
  case 0
  then show ?case by simp
next
  case (Suc n)
  have "replicate n (0::byte) @ [0] = 0 # replicate n 0"
    by (simp add: replicate_append_same)
  with Suc show ?case by simp
qed

lemma write_zeros_end [simp]:
  "((\<lambda>c. write_u8 c 0) ^^ n) (end_cursor bs) = end_cursor (bs @ replicate n 0)"
  by (simp add: write_u8_def)

lemma new_cursor_end: "new_cursor = end_cursor []"
  by (simp add: new_cursor_def end_cursor_def)

lemma writeFileChunk_end:
  assumes "q \<le> length d"
  shows "writeFileChunk (end_cursor bs) \<lparr> bc_bytes = d, bc_position = q \<rparr> chunkNo name =
     Inr (1024 < length d - q,
          end_cursor (bs @ chunk_record chunkNo name (take (min 1024 (length d - q)) (drop q d))),
          \<lparr> bc_bytes = d, bc_position = q + min 1024 (length d - q) \<rparr>)"
proof -
  have t: "take_cursor \<lparr> bc_bytes = d, bc_position = q \<rparr> (min 1024 (length d - q)) =
      Inr (cursor_of (take (min 1024 (length d - q)) (drop q d)),
           \<lparr> bc_bytes = d, bc_position = q + min 1024 (length d - q) \<rparr>)"
    using assms by (intro take_cursor_at) simp
  have len: "length (take (min 1024 (length d - q)) (drop q d)) = min 1024 (length d - q)"
    by simp
  show ?thesis
    unfolding writeFileChunk_def Let_def
    apply (simp only: bytes_left_def bc_size_def BufferCursor.simps t and_then.simps prod.case)
    apply (simp add: write_u8_array_def write_u8_def write_u32_def write_string_ascii_def
             write_cursor_def cursor_of_def chunk_record_def)
    using assms apply (auto simp: min_def)
    done
qed

lemma writeFileChunk_result:
  assumes "writeFileChunk cursor data chunkNo name = Inr (r, cursor', data')"
  shows "data' = data\<lparr> bc_position := bc_position data + min 1024 (bytes_left data) \<rparr>"
    and "r = (bytes_left data' \<noteq> 0)"
  using assms
  by (auto simp: writeFileChunk_def Let_def take_cursor_def read_bytes_def
        split: if_splits)

lemma writeFileChunk_consumes:
  assumes "writeFileChunk cursor data chunkNo name = Inr (True, cursor', data')"
  shows "bytes_left data' < bytes_left data"
proof -
  from writeFileChunk_result [OF assms]
  have d: "data' = data\<lparr> bc_position := bc_position data + min 1024 (bytes_left data) \<rparr>"
    and r: "bytes_left data' \<noteq> 0"
    by simp_all
  from r show ?thesis
    unfolding d by (auto simp: bytes_left_def bc_size_def min_def split: if_splits)
qed

text \<open>The bytes that the files of the loop still have to give, plus one for every file.\<close>

definition chunks_weight :: "(SimpleQstContainedFile \<times> nat) list \<Rightarrow> nat" where
  "chunks_weight files = sum_list (map (\<lambda>(f, n). bytes_left (sf_data f) + 1) files)"

lemma chunks_weight_remove:
  "i < length files \<Longrightarrow>
   chunks_weight (take i files @ drop (Suc i) files) < chunks_weight files"
proof -
  assume i: "i < length files"
  have "chunks_weight files =
        chunks_weight (take i files @ files ! i # drop (Suc i) files)"
    using id_take_nth_drop [OF i] by simp
  then show ?thesis
    by (simp add: chunks_weight_def split_beta)
qed

lemma chunks_weight_update:
  assumes "i < length files"
    and "bytes_left data' < bytes_left (sf_data (fst (files ! i)))"
  shows "chunks_weight (files[i := ((fst (files ! i))\<lparr> sf_data := data' \<rparr>, n)])
           < chunks_weight files"
proof -
  have "chunks_weight files =
        chunks_weight (take i files @ files ! i # drop (Suc i) files)"
    using id_take_nth_drop [OF assms(1)] by simp
  then show ?thesis
    using assms(2) by (simp add: chunks_weight_def split_beta upd_conv_take_nth_drop [OF assms(1)])
qed

text \<open>
  The loops of \<^verbatim>\<open>writeFileChunks\<close>: \<open>files\<close> pairs every file that is left with its next
  chunk number (the arrays \<^verbatim>\<open>files\<close> and \<^verbatim>\<open>chunkNos\<close> of the source, spliced together),
  \<open>i\<close> is the index of the inner loop.
\<close>

function writeFileChunks_loop ::
  "BufferCursor \<Rightarrow> (SimpleQstContainedFile \<times> nat) list \<Rightarrow> nat \<Rightarrow> error + BufferCursor" where
  "writeFileChunks_loop cursor files i =
     (if files = [] then Inr cursor
      else if i < length files then
        (case writeFileChunk cursor (sf_data (fst (files ! i))) (snd (files ! i))
                (sf_name (fst (files ! i))) of
           Inl e \<Rightarrow> Inl e
         | Inr (bytes_remain, cursor', data') \<Rightarrow>
             if \<not> bytes_remain
             then writeFileChunks_loop cursor' (take i files @ drop (Suc i) files) i
             else writeFileChunks_loop cursor'
                    (files[i := ((fst (files ! i))\<lparr> sf_data := data' \<rparr>, snd (files ! i) + 1)])
                    (i + 1))
      else writeFileChunks_loop cursor files 0)"
  by pat_completeness auto
termination
proof (relation "measures [\<lambda>(cursor, files, i). chunks_weight files,
                           \<lambda>(cursor, files, i). if i < length files then 0 else 1]",
       goal_cases)
  case 1
  then show ?case by simp
next
  case (2 cursor files i x2 bytes_remain y cursor' data')
  then show ?case by (simp add: chunks_weight_remove)
next
  case (3 cursor files i x2 bytes_remain y cursor' data')
  then have "writeFileChunk cursor (sf_data (fst (files ! i))) (snd (files ! i))
               (sf_name (fst (files ! i))) = Inr (True, cursor', data')"
    by simp
  from writeFileChunk_consumes [OF this] 3 show ?case
    by (simp add: chunks_weight_update)
next
  case (4 cursor files i)
  then show ?case by simp
qed

declare writeFileChunks_loop.simps [simp del]

definition writeFileChunks ::
  "BufferCursor \<Rightarrow> SimpleQstContainedFile list \<Rightarrow> error + BufferCursor" where
  "writeFileChunks cursor files = writeFileChunks_loop cursor (map (\<lambda>f. (f, 0)) files) 0"

text \<open>
  \<^verbatim>\<open>reduce\<close> without an initial value throws a \<^verbatim>\<open>TypeError\<close> on an empty array.
\<close>

definition writeQst :: "SimpleQstContainedFile list \<Rightarrow> error + BufferCursor" where
  "writeQst files =
     (if files = [] then Inl TypeError
      else
        let totalSize =
              sum_list (map (\<lambda>f. 88 + (bc_size (sf_data f) + 1023) div 1024 * 1056) files);
            cursor = new_cursor
        in and_then (writeFileHeaders cursor files) (\<lambda>cursor.
           and_then (writeFileChunks cursor files) (\<lambda>cursor.
             if bc_size cursor \<noteq> totalSize then Inl (SizeMismatch totalSize (bc_size cursor))
             else seek_start cursor 0)))"

subsection \<open>The layout of a header record\<close>

definition file_name2 :: "SimpleQstContainedFile \<Rightarrow> string" where
  "file_name2 file =
     (case sf_name2 file of
        None \<Rightarrow>
          (case js_lastIndexOf (sf_name file) CHR ''.'' of
             None \<Rightarrow> sf_name file @ ''_j''
           | Some dotPos \<Rightarrow> take dotPos (sf_name file) @ ''_j'' @ drop dotPos (sf_name file))
      | Some name2 \<Rightarrow> name2)"

definition header_record :: "SimpleQstContainedFile \<Rightarrow> byte list" where
  "header_record file =
     nat_le 2 88 @ nat_le 2 0x44
     @ nat_le 2 (case sf_questNo file of Some questNo \<Rightarrow> questNo | None \<Rightarrow> 0)
     @ replicate 38 0 @ ascii_field (sf_name file) 16 @ nat_le 4 (bc_size (sf_data file))
     @ ascii_field (file_name2 file) 24"

definition valid_names :: "SimpleQstContainedFile \<Rightarrow> bool" where
  "valid_names file = (length (sf_name file) \<le> 16 \<and> length (file_name2 file) \<le> 24)"

lemma length_header_record [simp]: "length (header_record file) = 88"
  by (simp add: header_record_def)

lemma writeFileHeaders_end:
  "list_all valid_names files \<Longrightarrow>
   writeFileHeaders (end_cursor bs) files = Inr (end_cursor (bs @ concat (map header_record files)))"
proof (induction files arbitrary: bs)
  case Nil
  then show ?case by simp
next
  case (Cons f files)
  then have vs: "list_all valid_names files" and vf: "valid_names f"
    by simp_all
  from vf have v: "length (sf_name f) \<le> 16" "length (file_name2 f) \<le> 24"
    by (simp_all add: valid_names_def)
  show ?case
    using v Cons.IH [OF vs]
    by (simp add: Let_def write_u16_def write_u32_def write_string_ascii_def header_record_def
          flip: file_name2_def)
qed

lemma writeFileHeaders_long_name:
  "\<exists>f \<in> set files. \<not> valid_names f \<Longrightarrow> \<exists>e. writeFileHeaders cursor files = Inl e"
proof (induction files arbitrary: cursor)
  case Nil
  then show ?case by simp
next
  case (Cons f files)
  show ?case
  proof (cases "valid_names f")
    case True
    with Cons.prems have "\<exists>f \<in> set files. \<not> valid_names f" by auto
    from Cons.IH [OF this] show ?thesis
      by (simp add: Let_def)
  next
    case False
    then show ?thesis
      by (auto simp: Let_def valid_names_def file_name2_def)
  qed
qed

lemma header_record_layout:
  "take 2 (drop 4 (header_record file))
     = nat_le 2 (case sf_questNo file of Some questNo \<Rightarrow> questNo | None \<Rightarrow> 0)"
  "take 16 (drop 44 (header_record file)) = ascii_field (sf_name file) 16"
  "take 4 (drop 60 (header_record file)) = nat_le 4 (bc_size (sf_data file))"
  "take 24 (drop 64 (header_record file)) = ascii_field (file_name2 file) 24"
  by (simp_all add: header_record_def)

text \<open>The header that \<^verbatim>\<open>parseHeaders\<close> reads from the 88 bytes at an offset.\<close>

definition header_at :: "byte list \<Rightarrow> nat \<Rightarrow> QstHeader" where
  "header_at bs off =
     \<lparr> hdr_questNo = le_nat (take 2 (drop (off + 4) bs)),
       hdr_fileName = map char_of_byte (takeWhile (\<lambda>b. b \<noteq> 0) (take 16 (drop (off + 44) bs))),
       hdr_fileName2 = map char_of_byte (takeWhile (\<lambda>b. b \<noteq> 0) (take 24 (drop (off + 64) bs))),
       hdr_size = le_nat (take 4 (drop (off + 60) bs)) \<rparr>"

lemma parse_header_at:
  assumes "p + 88 \<le> length bs"
  shows "parse_header \<lparr> bc_bytes = bs, bc_position = p \<rparr> =
           Inr (header_at bs p, \<lparr> bc_bytes = bs, bc_position = p + 88 \<rparr>)"
proof -
  have s1: "seek \<lparr> bc_bytes = bs, bc_position = p \<rparr> 4 = Inr \<lparr> bc_bytes = bs, bc_position = p + 4 \<rparr>"
    using seek_forward [of p 4 bs] assms by simp
  have s2: "u16 \<lparr> bc_bytes = bs, bc_position = p + 4 \<rparr> =
              Inr (le_nat (take 2 (drop (p + 4) bs)), \<lparr> bc_bytes = bs, bc_position = p + 6 \<rparr>)"
    using u16_at [of "p + 4" bs] assms by simp
  have s3: "seek \<lparr> bc_bytes = bs, bc_position = p + 6 \<rparr> 38 = Inr \<lparr> bc_bytes = bs, bc_position = p + 44 \<rparr>"
    using seek_forward [of "p + 6" 38 bs] assms by simp
  have s4: "string_ascii \<lparr> bc_bytes = bs, bc_position = p + 44 \<rparr> 16 =
              Inr (map char_of_byte (takeWhile (\<lambda>b. b \<noteq> 0) (take 16 (drop (p + 44) bs))),
                   \<lparr> bc_bytes = bs, bc_position = p + 60 \<rparr>)"
    using string_ascii_at [of "p + 44" 16 bs] assms by simp
  have s5: "u32 \<lparr> bc_bytes = bs, bc_position = p + 60 \<rparr> =
              Inr (le_nat (take 4 (drop (p + 60) bs)), \<lparr> bc_bytes = bs, bc_position = p + 64 \<rparr>)"
    using u32_at [of "p + 60" bs] assms by simp
  have s6: "string_ascii \<lparr> bc_bytes = bs, bc_position = p + 64 \<rparr> 24 =
              Inr (map char_of_byte (takeWhile (\<lambda>b. b \<noteq> 0) (take 24 (drop (p + 64) bs))),
                   \<lparr> bc_bytes = bs, bc_position = p + 88 \<rparr>)"
    using string_ascii_at [of "p + 64" 24 bs] assms by simp
  show ?thesis
    unfolding parse_header_def
    by (simp only: s1 s2 s3 s4 s5 s6 and_then.simps prod.case header_at_def)
qed

lemma parseHeaders_at:
  assumes "176 \<le> length bs"
  shows "parseHeaders (cursor_of bs) =
           Inr ([header_at bs 0, header_at bs 88], \<lparr> bc_bytes = bs, bc_position = 176 \<rparr>)"
proof -
  have 1: "parse_header \<lparr> bc_bytes = bs, bc_position = 0 \<rparr> =
             Inr (header_at bs 0, \<lparr> bc_bytes = bs, bc_position = 88 \<rparr>)"
    using parse_header_at [of 0 bs] assms by simp
  have 2: "parse_header \<lparr> bc_bytes = bs, bc_position = 88 \<rparr> =
             Inr (header_at bs 88, \<lparr> bc_bytes = bs, bc_position = 176 \<rparr>)"
    using parse_header_at [of 88 bs] assms by simp
  have two: "(2::nat) = Suc (Suc 0)" by simp
  show ?thesis
    unfolding parseHeaders_def cursor_of_def two
    by (simp add: 1 2)
qed

subsection \<open>The size of the archive\<close>

text \<open>
  The chunks that \<^verbatim>\<open>writeFileChunks\<close> emits for a file that has \<open>n\<close> bytes left: one
  even when nothing is left.
\<close>

definition chunks_needed :: "nat \<Rightarrow> nat" where
  "chunks_needed n = (if n = 0 then 1 else (n + 1023) div 1024)"

definition total_chunks :: "(SimpleQstContainedFile \<times> nat) list \<Rightarrow> nat" where
  "total_chunks files = sum_list (map (\<lambda>(f, n). chunks_needed (bytes_left (sf_data f))) files)"

definition predicted_size :: "SimpleQstContainedFile list \<Rightarrow> nat" where
  "predicted_size files =
     sum_list (map (\<lambda>f. 88 + (bc_size (sf_data f) + 1023) div 1024 * 1056) files)"

lemma chunks_needed_last: "n \<le> 1024 \<Longrightarrow> chunks_needed n = 1"
proof (cases "n = 0")
  case True
  then show ?thesis by (simp add: chunks_needed_def)
next
  case False
  assume "n \<le> 1024"
  with False have "(n + 1023) div 1024 = 1"
    by (intro div_nat_eqI) simp_all
  with False show ?thesis by (simp add: chunks_needed_def)
qed

lemma chunks_needed_more: "1024 < n \<Longrightarrow> chunks_needed n = Suc (chunks_needed (n - 1024))"
  by (simp add: chunks_needed_def)

lemma total_chunks_remove:
  "i < length files \<Longrightarrow>
   total_chunks files =
     total_chunks (take i files @ drop (Suc i) files)
     + chunks_needed (bytes_left (sf_data (fst (files ! i))))"
proof -
  assume i: "i < length files"
  have "total_chunks files = total_chunks (take i files @ files ! i # drop (Suc i) files)"
    using id_take_nth_drop [OF i] by simp
  then show ?thesis
    by (simp add: total_chunks_def split_beta)
qed

lemma total_chunks_update:
  assumes "i < length files"
  shows "total_chunks (files[i := (g, n)]) + chunks_needed (bytes_left (sf_data (fst (files ! i))))
           = total_chunks files + chunks_needed (bytes_left (sf_data g))"
proof -
  have "total_chunks files = total_chunks (take i files @ files ! i # drop (Suc i) files)"
    using id_take_nth_drop [OF assms] by simp
  then show ?thesis
    by (simp add: total_chunks_def split_beta upd_conv_take_nth_drop [OF assms])
qed

definition data_in_range :: "(SimpleQstContainedFile \<times> nat) list \<Rightarrow> bool" where
  "data_in_range files =
     list_all (\<lambda>(f, n). bc_position (sf_data f) \<le> bc_size (sf_data f)) files"

lemma data_in_range_nth:
  "data_in_range files \<Longrightarrow> i < length files \<Longrightarrow>
   bc_position (sf_data (fst (files ! i))) \<le> bc_size (sf_data (fst (files ! i)))"
  by (auto simp: data_in_range_def list_all_length split_beta)

lemma data_in_range_remove:
  "data_in_range files \<Longrightarrow> data_in_range (take i files @ drop (Suc i) files)"
  by (auto simp: data_in_range_def list_all_iff dest: in_set_takeD in_set_dropD)

lemma data_in_range_update:
  "data_in_range files \<Longrightarrow> bc_position (sf_data g) \<le> bc_size (sf_data g) \<Longrightarrow>
   data_in_range (files[i := (g, n)])"
  by (auto simp: data_in_range_def list_all_iff dest!: set_update_subset_insert [THEN subsetD])

lemma writeFileChunks_loop_size:
  "data_in_range files \<Longrightarrow>
   \<exists>out. writeFileChunks_loop (end_cursor bs) files i = Inr (end_cursor (bs @ out))
       \<and> length out = 1056 * total_chunks files"
proof (induction "end_cursor bs" files i arbitrary: bs rule: writeFileChunks_loop.induct)
  case (1 files i)
  show ?case
  proof (cases "files = []")
    case True
    then show ?thesis
      by (subst writeFileChunks_loop.simps) (simp add: total_chunks_def)
  next
    case ne: False
    show ?thesis
    proof (cases "i < length files")
      case False
      with ne "1.hyps"(3) [OF ne False refl "1.prems"] show ?thesis
        by (subst writeFileChunks_loop.simps) simp
    next
      case i: True
      define f where "f = fst (files ! i)"
      define d where "d = bc_bytes (sf_data f)"
      define q where "q = bc_position (sf_data f)"
      have data: "sf_data f = \<lparr> bc_bytes = d, bc_position = q \<rparr>"
        by (simp add: d_def q_def)
      have q: "q \<le> length d"
        using data_in_range_nth [OF "1.prems" i] by (simp add: f_def d_def q_def bc_size_def)
      have left: "bytes_left (sf_data f) = length d - q"
        by (simp add: bytes_left_def bc_size_def d_def q_def)
      define rec where
        "rec = chunk_record (snd (files ! i)) (sf_name f) (take (min 1024 (length d - q)) (drop q d))"
      define data' where "data' = \<lparr> bc_bytes = d, bc_position = q + min 1024 (length d - q) \<rparr>"
      have chunk: "writeFileChunk (end_cursor bs) (sf_data (fst (files ! i))) (snd (files ! i))
                     (sf_name (fst (files ! i)))
                   = Inr (1024 < length d - q, end_cursor (bs @ rec), data')"
        using writeFileChunk_end [OF q, of bs "snd (files ! i)" "sf_name f"]
        by (simp add: data rec_def data'_def flip: f_def)
      have rec_len: "length rec = 1056"
        by (simp add: rec_def chunk_record_fields)
      show ?thesis
      proof (cases "1024 < length d - q")
        case False
        from "1.hyps"(1) [OF ne i chunk refl refl _
                          data_in_range_remove [OF "1.prems"]] False
        obtain out where
          out: "writeFileChunks_loop (end_cursor (bs @ rec)) (take i files @ drop (Suc i) files) i
                  = Inr (end_cursor ((bs @ rec) @ out))"
          and len: "length out = 1056 * total_chunks (take i files @ drop (Suc i) files)"
          by auto
        have "chunks_needed (bytes_left (sf_data f)) = 1"
          using False by (simp add: left chunks_needed_last)
        with len rec_len have "length (rec @ out) = 1056 * total_chunks files"
          by (simp add: total_chunks_remove [OF i] flip: f_def)
        with out show ?thesis
          using ne i False by (subst writeFileChunks_loop.simps) (auto simp: chunk)
      next
        case True
        have range': "data_in_range (files[i := (f\<lparr> sf_data := data' \<rparr>, snd (files ! i) + 1)])"
          using q by (intro data_in_range_update [OF "1.prems"]) (simp add: data'_def bc_size_def)
        from "1.hyps"(2) [OF ne i chunk refl refl] True range'
        obtain out where
          out: "writeFileChunks_loop (end_cursor (bs @ rec))
                  (files[i := (f\<lparr> sf_data := data' \<rparr>, snd (files ! i) + 1)]) (i + 1)
                  = Inr (end_cursor ((bs @ rec) @ out))"
          and len: "length out = 1056 * total_chunks
                      (files[i := (f\<lparr> sf_data := data' \<rparr>, snd (files ! i) + 1)])"
          by (auto simp: f_def)
        have left': "bytes_left data' = length d - q - 1024"
          using True by (simp add: data'_def bytes_left_def bc_size_def)
        have "chunks_needed (bytes_left (sf_data f))
                = Suc (chunks_needed (bytes_left (sf_data (f\<lparr> sf_data := data' \<rparr>))))"
          using True by (simp add: left left' chunks_needed_more)
        with total_chunks_update [OF i, of "f\<lparr> sf_data := data' \<rparr>" "snd (files ! i) + 1"]
        have "total_chunks files
                = Suc (total_chunks (files[i := (f\<lparr> sf_data := data' \<rparr>, snd (files ! i) + 1)]))"
          by (simp add: f_def)
        with len rec_len have "length (rec @ out) = 1056 * total_chunks files"
          by simp
        with out show ?thesis
          using ne i True by (subst writeFileChunks_loop.simps) (auto simp: chunk f_def)
      qed
    qed
  qed
qed

lemma chunks_needed_fresh:
  "bc_position d = 0 \<Longrightarrow> 0 < bc_size d \<Longrightarrow>
   chunks_needed (bytes_left d) = (bc_size d + 1023) div 1024"
  by (simp add: chunks_needed_def bytes_left_def)

lemma predicted_size_fresh:
  "list_all (\<lambda>f. bc_position (sf_data f) = 0 \<and> 0 < bc_size (sf_data f)) files \<Longrightarrow>
   88 * length files + 1056 * total_chunks (map (\<lambda>f. (f, 0)) files) = predicted_size files"
proof (induction files)
  case Nil
  then show ?case by (simp add: total_chunks_def predicted_size_def)
next
  case (Cons f files)
  then have "chunks_needed (bytes_left (sf_data f)) = (bc_size (sf_data f) + 1023) div 1024"
    by (simp add: chunks_needed_fresh)
  moreover have "88 * length files + 1056 * total_chunks (map (\<lambda>f. (f, 0)) files)
                   = predicted_size files"
    using Cons by simp
  ultimately show ?case
    by (simp add: total_chunks_def predicted_size_def)
qed

lemma writeQst_emitted:
  assumes "files \<noteq> []" and "list_all valid_names files"
    and "list_all (\<lambda>f. bc_position (sf_data f) \<le> bc_size (sf_data f)) files"
  shows "\<exists>bs. length bs = 88 * length files + 1056 * total_chunks (map (\<lambda>f. (f, 0)) files)
           \<and> writeFileHeaders new_cursor files = Inr (end_cursor (take (88 * length files) bs))
           \<and> writeFileChunks (end_cursor (take (88 * length files) bs)) files = Inr (end_cursor bs)
           \<and> writeQst files =
               (if length bs = predicted_size files then Inr (cursor_of bs)
                else Inl (SizeMismatch (predicted_size files) (length bs)))"
proof -
  define hs where "hs = concat (map header_record files)"
  have hs_len: "length hs = 88 * length files"
    by (simp add: hs_def length_concat_records [where n = 88])
  have headers: "writeFileHeaders new_cursor files = Inr (end_cursor hs)"
    using writeFileHeaders_end [OF assms(2), of "[]"] by (simp add: new_cursor_end hs_def)
  have "data_in_range (map (\<lambda>f. (f, 0)) files)"
    using assms(3) by (simp add: data_in_range_def list_all_iff)
  from writeFileChunks_loop_size [OF this, of hs 0]
  obtain out where chunks: "writeFileChunks (end_cursor hs) files = Inr (end_cursor (hs @ out))"
    and out_len: "length out = 1056 * total_chunks (map (\<lambda>f. (f, 0)) files)"
    by (auto simp: writeFileChunks_def)
  have "writeQst files =
          (if length (hs @ out) = predicted_size files then Inr (cursor_of (hs @ out))
           else Inl (SizeMismatch (predicted_size files) (length (hs @ out))))"
    unfolding writeQst_def Let_def predicted_size_def [symmetric]
    using assms(1)
    by (simp add: headers chunks del: length_append)
       (simp add: end_cursor_def bc_size_def seek_start_def cursor_of_def)
  with hs_len out_len headers chunks show ?thesis
    by (intro exI [of _ "hs @ out"]) simp
qed

lemma single_file_emitted:
  assumes "valid_names f" and "bc_position (sf_data f) \<le> bc_size (sf_data f)"
  shows "\<exists>bs. length bs = 88 + 1056 * chunks_needed (bytes_left (sf_data f))
           \<and> writeFileHeaders new_cursor [f] = Inr (end_cursor (take 88 bs))
           \<and> writeFileChunks (end_cursor (take 88 bs)) [f] = Inr (end_cursor bs)
           \<and> writeQst [f] =
               (if length bs = predicted_size [f] then Inr (cursor_of bs)
                else Inl (SizeMismatch (predicted_size [f]) (length bs)))"
  using writeQst_emitted [of "[f]"] assms by (simp add: total_chunks_def)

definition example_file :: SimpleQstContainedFile where
  "example_file =
     \<lparr> sf_name = ''quest.bin'', sf_name2 = None, sf_questNo = Some 58,
       sf_data = cursor_of (replicate 1500 7) \<rparr>"

definition long_name_file :: SimpleQstContainedFile where
  "long_name_file = example_file \<lparr> sf_name := ''quest_of_the_day.bin'' \<rparr>"

definition empty_file :: SimpleQstContainedFile where
  "empty_file = example_file \<lparr> sf_data := cursor_of [] \<rparr>"

definition half_read_file :: SimpleQstContainedFile where
  "half_read_file = example_file \<lparr> sf_data := \<lparr> bc_bytes = replicate 1500 7, bc_position = 1024 \<rparr> \<rparr>"

lemma example_file_valid:
  "valid_names example_file" "valid_names empty_file" "valid_names half_read_file"
  by (simp_all add: valid_names_def example_file_def empty_file_def half_read_file_def
        file_name2_def js_lastIndexOf_def)

text \<open>
  C8, as amended. For a non-empty list of files whose names fit the header fields and
  whose payloads are not empty and are positioned at their start, \<^verbatim>\<open>writeQst\<close> returns
  exactly \<open>88 + ceil(payload_size / 1024) * 1056\<close> bytes per file. No list of files makes
  it return another number of bytes: when the bytes written differ from the prediction
  the result is the error, not the bytes.
\<close>

theorem writeQst_emits_predicted_size:
  assumes "files \<noteq> []"
  shows "(list_all valid_names files
          \<and> list_all (\<lambda>f. bc_position (sf_data f) = 0 \<and> 0 < bc_size (sf_data f)) files
          \<longrightarrow> (\<exists>bs. writeQst files = Inr (cursor_of bs) \<and> length bs = predicted_size files))
       \<and> (\<forall>c. writeQst files = Inr c \<longrightarrow> bc_size c = predicted_size files)
       \<and> (\<forall>h c. writeFileHeaders new_cursor files = Inr h \<and> writeFileChunks h files = Inr c
                 \<and> bc_size c \<noteq> predicted_size files
            \<longrightarrow> writeQst files = Inl (SizeMismatch (predicted_size files) (bc_size c)))"
proof (intro conjI impI allI)
  assume a: "list_all valid_names files
             \<and> list_all (\<lambda>f. bc_position (sf_data f) = 0 \<and> 0 < bc_size (sf_data f)) files"
  then have "list_all (\<lambda>f. bc_position (sf_data f) \<le> bc_size (sf_data f)) files"
    by (simp add: list_all_iff)
  from writeQst_emitted [OF assms conjunct1 [OF a] this] predicted_size_fresh [OF conjunct2 [OF a]]
  show "\<exists>bs. writeQst files = Inr (cursor_of bs) \<and> length bs = predicted_size files"
    by auto
next
  fix c
  assume "writeQst files = Inr c"
  then show "bc_size c = predicted_size files"
    unfolding writeQst_def Let_def predicted_size_def [symmetric]
    using assms
    by (cases "writeFileHeaders new_cursor files";
        cases "writeFileChunks (projr (writeFileHeaders new_cursor files)) files")
       (auto simp: seek_start_def bc_size_def split: if_splits)
next
  fix h c
  assume "writeFileHeaders new_cursor files = Inr h \<and> writeFileChunks h files = Inr c
          \<and> bc_size c \<noteq> predicted_size files"
  then show "writeQst files = Inl (SizeMismatch (predicted_size files) (bc_size c))"
    unfolding writeQst_def Let_def predicted_size_def [symmetric]
    using assms by simp
qed

lemma example_sizes:
  "predicted_size [example_file] = 2200" "predicted_size [empty_file] = 88"
  "predicted_size [half_read_file] = 2200"
  "chunks_needed (bytes_left (sf_data empty_file)) = 1"
  "chunks_needed (bytes_left (sf_data half_read_file)) = 1"
  "bc_position (sf_data empty_file) \<le> bc_size (sf_data empty_file)"
  "bc_position (sf_data half_read_file) \<le> bc_size (sf_data half_read_file)"
  "bc_position (sf_data example_file) = 0" "0 < bc_size (sf_data example_file)"
  by (simp_all add: predicted_size_def chunks_needed_def example_file_def empty_file_def
        half_read_file_def cursor_of_def bytes_left_def bc_size_def)

lemma empty_file_emitted:
  "\<exists>bs. length bs = 1144
     \<and> writeFileHeaders new_cursor [empty_file] = Inr (end_cursor (take 88 bs))
     \<and> writeFileChunks (end_cursor (take 88 bs)) [empty_file] = Inr (end_cursor bs)
     \<and> writeQst [empty_file] = Inl (SizeMismatch 88 1144)"
  using single_file_emitted [OF example_file_valid(2) example_sizes(6)]
  by (auto simp: example_sizes simp del: writeFileHeaders.simps)

theorem writeQst_emits_predicted_size_witness:
  "(\<exists>bs. writeQst [example_file] = Inr (cursor_of bs) \<and> length bs = 2200)
   \<and> predicted_size [example_file] = 2200
   \<and> writeQst [empty_file] = Inl (SizeMismatch 88 1144)"
proof -
  from empty_file_emitted obtain bs where
    bs: "length bs = 1144"
    and h: "writeFileHeaders new_cursor [empty_file] = Inr (end_cursor (take 88 bs))"
    and c: "writeFileChunks (end_cursor (take 88 bs)) [empty_file] = Inr (end_cursor bs)"
    by blast
  from bs have size: "bc_size (end_cursor bs) = 1144"
    by (simp add: end_cursor_def bc_size_def)
  then have ne: "bc_size (end_cursor bs) \<noteq> predicted_size [empty_file]"
    by (simp add: example_sizes)
  note fresh = writeQst_emits_predicted_size [of "[example_file]", OF list.distinct(2)]
  note empty = writeQst_emits_predicted_size [of "[empty_file]", OF list.distinct(2)]
  from fresh [THEN conjunct1]
  have 1: "\<exists>bs. writeQst [example_file] = Inr (cursor_of bs) \<and> length bs = 2200"
    by (simp add: example_file_valid example_sizes)
  from empty [THEN conjunct2, THEN conjunct2, rule_format, OF conjI [OF h conjI [OF c ne]]]
  have 2: "writeQst [empty_file] = Inl (SizeMismatch 88 1144)"
    by (simp only: size example_sizes)
  from 1 2 show ?thesis by (simp add: example_sizes)
qed

theorem writeQst_emits_nothing_counterexample:
  "writeQst [long_name_file] = Inl (NameTooLong ''quest_of_the_day.bin'')
   \<and> predicted_size [empty_file] = 88 \<and> writeQst [empty_file] = Inl (SizeMismatch 88 1144)
   \<and> predicted_size [half_read_file] = 2200
   \<and> writeQst [half_read_file] = Inl (SizeMismatch 2200 1144)"
proof -
  have 1: "writeQst [long_name_file] = Inl (NameTooLong ''quest_of_the_day.bin'')"
    by (simp add: writeQst_def long_name_file_def example_file_def)
  have 2: "writeQst [empty_file] = Inl (SizeMismatch 88 1144)"
    using empty_file_emitted by blast
  have 3: "writeQst [half_read_file] = Inl (SizeMismatch 2200 1144)"
    using single_file_emitted [OF example_file_valid(3) example_sizes(7)]
    by (auto simp: example_sizes simp del: writeFileHeaders.simps)
  from 1 2 3 show ?thesis by (simp add: example_sizes)
qed

lemma concat_slice:
  "\<forall>r \<in> set rs. length r = n \<Longrightarrow> i < length rs \<Longrightarrow> take n (drop (n * i) (concat rs)) = rs ! i"
proof (induction rs arbitrary: i)
  case Nil
  then show ?case by simp
next
  case (Cons r rs)
  show ?case
  proof (cases i)
    case 0
    with Cons.prems show ?thesis by simp
  next
    case (Suc j)
    with Cons.prems have "take n (drop (n * j) (concat rs)) = rs ! j"
      by (intro Cons.IH) simp_all
    with Suc Cons.prems show ?thesis by simp
  qed
qed

lemma header_slice:
  assumes "i < length files" and "off + len \<le> 88"
  shows "take len (drop (88 * i + off) (concat (map header_record files)))
           = take len (drop off (header_record (files ! i)))"
proof -
  have "take 88 (drop (88 * i) (concat (map header_record files))) = header_record (files ! i)"
    using concat_slice [of "map header_record files" 88 i] assms(1) by simp
  then show ?thesis
    using slice_of_slice [OF assms(2), of "88 * i" "concat (map header_record files)"] by simp
qed

definition quest_no_of :: "SimpleQstContainedFile \<Rightarrow> nat" where
  "quest_no_of file = (case sf_questNo file of Some questNo \<Rightarrow> questNo | None \<Rightarrow> 0)"

definition example_headers :: "SimpleQstContainedFile list" where
  "example_headers =
     [example_file \<lparr> sf_name := ''quest58.dat'', sf_data := cursor_of (replicate 300 1) \<rparr>,
      example_file \<lparr> sf_name := ''quest58.bin'', sf_name2 := Some ''quest58_j.bin'' \<rparr>]"

text \<open>
  C9, as amended. A header record has 88 bytes, with the quest number in the 2 bytes at
  offset 4, the file name in the 16 bytes at offset 44, the size in the 4 bytes at offset 60
  and the second name in the 24 bytes at offset 64. \<^verbatim>\<open>writeFileHeaders\<close> writes one such
  record per file, and \<^verbatim>\<open>parseHeaders\<close> reads two of them.
\<close>

theorem header_records_layout:
  "(list_all valid_names files \<longrightarrow>
      (\<exists>bs. writeFileHeaders new_cursor files = Inr (end_cursor bs)
         \<and> length bs = 88 * length files
         \<and> (\<forall>i < length files.
              take 2 (drop (88 * i + 4) bs) = nat_le 2 (quest_no_of (files ! i))
            \<and> take 16 (drop (88 * i + 44) bs) = ascii_field (sf_name (files ! i)) 16
            \<and> take 4 (drop (88 * i + 60) bs) = nat_le 4 (bc_size (sf_data (files ! i)))
            \<and> take 24 (drop (88 * i + 64) bs) = ascii_field (file_name2 (files ! i)) 24)))
   \<and> (176 \<le> length bytes \<longrightarrow>
      (\<exists>h0 h1 c. parseHeaders (cursor_of bytes) = Inr ([h0, h1], c) \<and> bc_position c = 176
         \<and> hdr_questNo h0 = le_nat (take 2 (drop 4 bytes))
         \<and> hdr_fileName h0 = map char_of_byte (takeWhile (\<lambda>b. b \<noteq> 0) (take 16 (drop 44 bytes)))
         \<and> hdr_size h0 = le_nat (take 4 (drop 60 bytes))
         \<and> hdr_fileName2 h0 = map char_of_byte (takeWhile (\<lambda>b. b \<noteq> 0) (take 24 (drop 64 bytes)))
         \<and> hdr_questNo h1 = le_nat (take 2 (drop 92 bytes))
         \<and> hdr_fileName h1 = map char_of_byte (takeWhile (\<lambda>b. b \<noteq> 0) (take 16 (drop 132 bytes)))
         \<and> hdr_size h1 = le_nat (take 4 (drop 148 bytes))
         \<and> hdr_fileName2 h1 = map char_of_byte (takeWhile (\<lambda>b. b \<noteq> 0) (take 24 (drop 152 bytes)))))"
proof (intro conjI impI)
  assume v: "list_all valid_names files"
  define bs where "bs = concat (map header_record files)"
  have w: "writeFileHeaders new_cursor files = Inr (end_cursor bs)"
    using writeFileHeaders_end [OF v, of "[]"] by (simp add: new_cursor_end bs_def)
  have len: "length bs = 88 * length files"
    by (simp add: bs_def length_concat_records [where n = 88])
  have "take 2 (drop (88 * i + 4) bs) = nat_le 2 (quest_no_of (files ! i))
      \<and> take 16 (drop (88 * i + 44) bs) = ascii_field (sf_name (files ! i)) 16
      \<and> take 4 (drop (88 * i + 60) bs) = nat_le 4 (bc_size (sf_data (files ! i)))
      \<and> take 24 (drop (88 * i + 64) bs) = ascii_field (file_name2 (files ! i)) 24"
    if "i < length files" for i
    unfolding bs_def quest_no_of_def
    by (simp add: header_slice [OF that] header_record_layout)
  with w len
  show "\<exists>bs. writeFileHeaders new_cursor files = Inr (end_cursor bs)
         \<and> length bs = 88 * length files
         \<and> (\<forall>i < length files.
              take 2 (drop (88 * i + 4) bs) = nat_le 2 (quest_no_of (files ! i))
            \<and> take 16 (drop (88 * i + 44) bs) = ascii_field (sf_name (files ! i)) 16
            \<and> take 4 (drop (88 * i + 60) bs) = nat_le 4 (bc_size (sf_data (files ! i)))
            \<and> take 24 (drop (88 * i + 64) bs) = ascii_field (file_name2 (files ! i)) 24)"
    by blast
next
  assume "176 \<le> length bytes"
  from parseHeaders_at [OF this]
  show "\<exists>h0 h1 c. parseHeaders (cursor_of bytes) = Inr ([h0, h1], c) \<and> bc_position c = 176
         \<and> hdr_questNo h0 = le_nat (take 2 (drop 4 bytes))
         \<and> hdr_fileName h0 = map char_of_byte (takeWhile (\<lambda>b. b \<noteq> 0) (take 16 (drop 44 bytes)))
         \<and> hdr_size h0 = le_nat (take 4 (drop 60 bytes))
         \<and> hdr_fileName2 h0 = map char_of_byte (takeWhile (\<lambda>b. b \<noteq> 0) (take 24 (drop 64 bytes)))
         \<and> hdr_questNo h1 = le_nat (take 2 (drop 92 bytes))
         \<and> hdr_fileName h1 = map char_of_byte (takeWhile (\<lambda>b. b \<noteq> 0) (take 16 (drop 132 bytes)))
         \<and> hdr_size h1 = le_nat (take 4 (drop 148 bytes))
         \<and> hdr_fileName2 h1 = map char_of_byte (takeWhile (\<lambda>b. b \<noteq> 0) (take 24 (drop 152 bytes)))"
    by (simp add: header_at_def)
qed

lemma example_headers_valid: "list_all valid_names example_headers"
  by (simp add: example_headers_def example_file_def valid_names_def file_name2_def
        js_lastIndexOf_def)

lemma example_names_decode:
  "map char_of_byte (takeWhile (\<lambda>b. b \<noteq> 0) (ascii_field ''quest58.dat'' 16)) = ''quest58.dat''"
  "map char_of_byte (takeWhile (\<lambda>b. b \<noteq> 0) (ascii_field ''quest58.bin'' 16)) = ''quest58.bin''"
  "map char_of_byte (takeWhile (\<lambda>b. b \<noteq> 0) (ascii_field ''quest58_j.dat'' 24)) = ''quest58_j.dat''"
  "map char_of_byte (takeWhile (\<lambda>b. b \<noteq> 0) (ascii_field ''quest58_j.bin'' 24)) = ''quest58_j.bin''"
  by (simp_all add: ascii_field_decode)

lemma example_headers_fields:
  "sf_name (example_headers ! 0) = ''quest58.dat''"
  "sf_name (example_headers ! Suc 0) = ''quest58.bin''"
  "file_name2 (example_headers ! 0) = ''quest58_j.dat''"
  "file_name2 (example_headers ! Suc 0) = ''quest58_j.bin''"
  "quest_no_of (example_headers ! 0) = 58" "quest_no_of (example_headers ! Suc 0) = 58"
  "bc_size (sf_data (example_headers ! 0)) = 300"
  "bc_size (sf_data (example_headers ! Suc 0)) = 1500"
  by (simp_all add: example_headers_def example_file_def file_name2_def js_lastIndexOf_def
        quest_no_of_def cursor_of_def bc_size_def)

theorem header_records_layout_witness:
  "\<exists>bs c. writeFileHeaders new_cursor example_headers = Inr (end_cursor bs) \<and> length bs = 176
     \<and> take 16 (drop 44 bs) = ascii_field ''quest58.dat'' 16
     \<and> take 16 (drop 132 bs) = ascii_field ''quest58.bin'' 16
     \<and> parseHeaders (cursor_of bs) =
         Inr ([\<lparr> hdr_questNo = 58, hdr_fileName = ''quest58.dat'',
                  hdr_fileName2 = ''quest58_j.dat'', hdr_size = 300 \<rparr>,
               \<lparr> hdr_questNo = 58, hdr_fileName = ''quest58.bin'',
                  hdr_fileName2 = ''quest58_j.bin'', hdr_size = 1500 \<rparr>], c)"
proof -
  from header_records_layout [of example_headers, THEN conjunct1, rule_format,
      OF example_headers_valid]
  obtain bs where w: "writeFileHeaders new_cursor example_headers = Inr (end_cursor bs)"
    and len: "length bs = 88 * length example_headers"
    and fields: "\<And>i. i < length example_headers \<Longrightarrow>
           take 2 (drop (88 * i + 4) bs) = nat_le 2 (quest_no_of (example_headers ! i))
         \<and> take 16 (drop (88 * i + 44) bs) = ascii_field (sf_name (example_headers ! i)) 16
         \<and> take 4 (drop (88 * i + 60) bs) = nat_le 4 (bc_size (sf_data (example_headers ! i)))
         \<and> take 24 (drop (88 * i + 64) bs) = ascii_field (file_name2 (example_headers ! i)) 24"
    by blast
  have two: "length example_headers = 2"
    by (simp add: example_headers_def)
  from len have len': "length bs = 176" "176 \<le> length bs"
    by (simp_all add: two)
  have f0: "take 2 (drop 4 bs) = nat_le 2 58" "take 16 (drop 44 bs) = ascii_field ''quest58.dat'' 16"
    "take 4 (drop 60 bs) = nat_le 4 300" "take 24 (drop 64 bs) = ascii_field ''quest58_j.dat'' 24"
    using fields [of 0] by (simp_all add: two example_headers_fields)
  have f1: "take 2 (drop 92 bs) = nat_le 2 58" "take 16 (drop 132 bs) = ascii_field ''quest58.bin'' 16"
    "take 4 (drop 148 bs) = nat_le 4 1500" "take 24 (drop 152 bs) = ascii_field ''quest58_j.bin'' 24"
    using fields [of 1] by (simp_all add: two example_headers_fields)
  from header_records_layout [of "[]" bs, THEN conjunct2, rule_format, OF len'(2)]
  obtain h0 h1 c where p: "parseHeaders (cursor_of bs) = Inr ([h0, h1], c)"
    and h0: "hdr_questNo h0 = 58" "hdr_fileName h0 = ''quest58.dat''" "hdr_size h0 = 300"
            "hdr_fileName2 h0 = ''quest58_j.dat''"
    and h1: "hdr_questNo h1 = 58" "hdr_fileName h1 = ''quest58.bin''" "hdr_size h1 = 1500"
            "hdr_fileName2 h1 = ''quest58_j.bin''"
    unfolding f0 f1 example_names_decode le_nat_nat_le by auto
  from h0 have "h0 = \<lparr> hdr_questNo = 58, hdr_fileName = ''quest58.dat'',
                  hdr_fileName2 = ''quest58_j.dat'', hdr_size = 300 \<rparr>"
    by (cases h0) simp
  moreover from h1 have "h1 = \<lparr> hdr_questNo = 58, hdr_fileName = ''quest58.bin'',
                  hdr_fileName2 = ''quest58_j.bin'', hdr_size = 1500 \<rparr>"
    by (cases h1) simp
  ultimately show ?thesis
    using w len'(1) f0(2) f1(2) p by blast
qed

lemma le_nat_zeros: "le_nat (replicate n 0) = 0"
  by (induction n) simp_all

definition name_at_42 :: "byte list" where
  "name_at_42 = replicate 42 0 @ ascii_field ''quest.bin'' 16 @ replicate 30 0"

theorem name_at_offset_42_counterexample:
  "writeFileHeaders new_cursor [example_file] = Inr (end_cursor (header_record example_file))
   \<and> take 16 (drop 42 (header_record example_file)) \<noteq> ascii_field ''quest.bin'' 16
   \<and> take 16 (drop 44 (header_record example_file)) = ascii_field ''quest.bin'' 16
   \<and> parseHeaders (cursor_of (name_at_42 @ name_at_42)) =
       Inr ([\<lparr> hdr_questNo = 0, hdr_fileName = ''est.bin'', hdr_fileName2 = [], hdr_size = 0 \<rparr>,
             \<lparr> hdr_questNo = 0, hdr_fileName = ''est.bin'', hdr_fileName2 = [], hdr_size = 0 \<rparr>],
            \<lparr> bc_bytes = name_at_42 @ name_at_42, bc_position = 176 \<rparr>)"
proof -
  have 1: "writeFileHeaders new_cursor [example_file] = Inr (end_cursor (header_record example_file))"
    using writeFileHeaders_end [of "[example_file]" "[]"]
    by (simp add: example_file_valid new_cursor_end del: writeFileHeaders.simps)
  have 2: "take 16 (drop 42 (header_record example_file)) \<noteq> ascii_field ''quest.bin'' 16"
    by (simp add: header_record_def ascii_field_def example_file_def byte_of_char_def)
       (simp add: numeral_2_eq_2)
  have 3: "take 16 (drop 44 (header_record example_file)) = ascii_field ''quest.bin'' 16"
    by (simp add: header_record_layout example_file_def)
  have len: "176 \<le> length (name_at_42 @ name_at_42)"
    by (simp add: name_at_42_def ascii_field_def)
  have 4: "header_at (name_at_42 @ name_at_42) 0 =
             \<lparr> hdr_questNo = 0, hdr_fileName = ''est.bin'', hdr_fileName2 = [], hdr_size = 0 \<rparr>"
    by (simp add: header_at_def name_at_42_def ascii_field_def byte_of_char_def char_of_byte_def
          char_of_eq_iff le_nat_zeros)
  have 5: "header_at (name_at_42 @ name_at_42) 88 =
             \<lparr> hdr_questNo = 0, hdr_fileName = ''est.bin'', hdr_fileName2 = [], hdr_size = 0 \<rparr>"
    by (simp add: header_at_def name_at_42_def ascii_field_def byte_of_char_def char_of_byte_def
          char_of_eq_iff le_nat_zeros)
  from parseHeaders_at [OF len] have 6: "parseHeaders (cursor_of (name_at_42 @ name_at_42)) =
       Inr ([\<lparr> hdr_questNo = 0, hdr_fileName = ''est.bin'', hdr_fileName2 = [], hdr_size = 0 \<rparr>,
             \<lparr> hdr_questNo = 0, hdr_fileName = ''est.bin'', hdr_fileName2 = [], hdr_size = 0 \<rparr>],
            \<lparr> bc_bytes = name_at_42 @ name_at_42, bc_position = 176 \<rparr>)"
    by (simp only: 4 5)
  from 1 2 3 6 show ?thesis
    by (intro conjI)
qed

end
